theory Spec2Isabelle
  imports Complex_Main "HOL-Library.Char_ord" "HOL-Library.List_Lexorder" "HOL-Library.Sublist"
begin

section \<open>Values of the program\<close>

text \<open>
  The dashboard (\<^verbatim>\<open>streamlit_app.py\<close>) works on what \<^verbatim>\<open>response.json()\<close> returns:
  Python values built from \<^verbatim>\<open>None\<close>, booleans, numbers, strings, lists and dicts with
  string keys. A number is the real it denotes (no arithmetic of the program is followed
  on it); the float NaN is a value of its own, because \<^verbatim>\<open>dropna\<close> looks for it and
  because pandas writes it into the cell of a column that a record does not have. A str
  is the list of its code points (the model holds code points below 256), a dict the list
  of its items with distinct keys.
\<close>

datatype json =
    JNull
  | JBool bool
  | JNum real
  | JNaN
  | JStr string
  | JList "json list"
  | JObj "(string \<times> json) list"

type_synonym event = "(string \<times> json) list"

text \<open>
  What the program can raise. \<open>Outside_model\<close> is not a Python exception: the model
  answers it where the program leaves the fragment of pandas and folium that is followed
  here (reading a date that has none of the forms followed, a table with a date that is
  NaT, ordering a column that holds other values than str, drawing coordinates that are
  not numbers).
\<close>

datatype failure =
    KeyError
  | IndexError
  | TypeError
  | AttributeError
  | ValueError
  | Outside_model

subsection \<open>Python's operations on these values\<close>

text \<open>The truth value \<^verbatim>\<open>if x\<close> tests.\<close>

fun truthy :: "json \<Rightarrow> bool" where
  "truthy JNull = False"
| "truthy (JBool b) = b"
| "truthy (JNum r) = (r \<noteq> 0)"
| "truthy JNaN = True"
| "truthy (JStr s) = (s \<noteq> [])"
| "truthy (JList xs) = (xs \<noteq> [])"
| "truthy (JObj kvs) = (kvs \<noteq> [])"

text \<open>\<^verbatim>\<open>x[i]\<close> for the indices 0 and 1 the program uses.\<close>

fun getitem_int :: "json \<Rightarrow> nat \<Rightarrow> failure + json" where
  "getitem_int (JList xs) i = (if i < length xs then Inr (xs ! i) else Inl IndexError)"
| "getitem_int (JStr s) i = (if i < length s then Inr (JStr [s ! i]) else Inl IndexError)"
| "getitem_int (JObj kvs) i = Inl KeyError"
| "getitem_int v i = Inl TypeError"

text \<open>\<^verbatim>\<open>x['key']\<close>.\<close>

fun getitem_key :: "json \<Rightarrow> string \<Rightarrow> failure + json" where
  "getitem_key (JObj kvs) k = (case map_of kvs k of Some v \<Rightarrow> Inr v | None \<Rightarrow> Inl KeyError)"
| "getitem_key v k = Inl TypeError"

text \<open>\<^verbatim>\<open>x.get('key', default)\<close>: only a dict has the method.\<close>

fun dict_get :: "json \<Rightarrow> string \<Rightarrow> json \<Rightarrow> failure + json" where
  "dict_get (JObj kvs) k dflt = Inr (case map_of kvs k of Some v \<Rightarrow> v | None \<Rightarrow> dflt)"
| "dict_get v k dflt = Inl AttributeError"

text \<open>\<^verbatim>\<open>len(x)\<close>.\<close>

fun py_len :: "json \<Rightarrow> failure + nat" where
  "py_len (JList xs) = Inr (length xs)"
| "py_len (JStr s) = Inr (length s)"
| "py_len (JObj kvs) = Inr (length kvs)"
| "py_len v = Inl TypeError"

text \<open>Sequencing of steps that can raise.\<close>

definition and_then :: "failure + 'a \<Rightarrow> ('a \<Rightarrow> failure + 'b) \<Rightarrow> failure + 'b" where
  "and_then m f = (case m of Inl e \<Rightarrow> Inl e | Inr x \<Rightarrow> f x)"

text \<open>
  \<^verbatim>\<open>Series.apply(f)\<close> calls \<open>f\<close> on the cells from the first to the last; the first call
  that raises ends it.
\<close>

fun series_apply :: "('a \<Rightarrow> failure + 'b) \<Rightarrow> 'a list \<Rightarrow> failure + 'b list" where
  "series_apply f [] = Inr []"
| "series_apply f (x # xs) =
     (case f x of
        Inl e \<Rightarrow> Inl e
      | Inr y \<Rightarrow> (case series_apply f xs of Inl e \<Rightarrow> Inl e | Inr ys \<Rightarrow> Inr (y # ys)))"

text \<open>Tests of the type of a value, and the text of a str.\<close>

fun is_str :: "json \<Rightarrow> bool" where
  "is_str (JStr s) = True"
| "is_str v = False"

fun str_of :: "json \<Rightarrow> string" where
  "str_of (JStr s) = s"
| "str_of v = []"

text \<open>What \<^verbatim>\<open>dropna\<close> takes for a missing cell.\<close>

fun isna :: "json \<Rightarrow> bool" where
  "isna JNull = True"
| "isna JNaN = True"
| "isna v = False"

section \<open>The table builder (lines 51 to 66)\<close>

subsection \<open>Lines 51 and 54: the four columns\<close>

text \<open>
  \<^verbatim>\<open>pd.json_normalize\<close> makes one row per record and one column per key; a value that is
  a dict is flattened into columns named \<^verbatim>\<open>key.subkey\<close>, so it leaves no cell under its
  own key. A record without the key of a column gets NaN there. Line 54 then selects
  \<^verbatim>\<open>['id', 'title', 'categories', 'geometry']\<close>, which raises KeyError when one of
  the four columns does not exist.
\<close>

definition cell :: "event \<Rightarrow> string \<Rightarrow> json" where
  "cell e k = (case map_of e k of None \<Rightarrow> JNaN | Some (JObj kvs) \<Rightarrow> JNaN | Some v \<Rightarrow> v)"

definition has_cell :: "string \<Rightarrow> event \<Rightarrow> bool" where
  "has_cell k e = (case map_of e k of None \<Rightarrow> False | Some (JObj kvs) \<Rightarrow> False | Some v \<Rightarrow> True)"

definition has_column :: "event list \<Rightarrow> string \<Rightarrow> bool" where
  "has_column evs k = list_ex (has_cell k) evs"

record raw_row =
  event_id :: json
  title :: json
  categories :: json
  geometry :: json

definition select_row :: "event \<Rightarrow> raw_row" where
  "select_row e =
     \<lparr>event_id = cell e ''id'', title = cell e ''title'',
      categories = cell e ''categories'', geometry = cell e ''geometry''\<rparr>"

definition select_columns :: "event list \<Rightarrow> failure + raw_row list" where
  "select_columns evs =
     (if has_column evs ''id'' \<and> has_column evs ''title'' \<and>
         has_column evs ''categories'' \<and> has_column evs ''geometry''
      then Inr (map select_row evs)
      else Inl KeyError)"

subsection \<open>Lines 55 to 61: the lambdas\<close>

text \<open>Line 55: \<^verbatim>\<open>lambda x: x[0]['title'] if x else 'N/A'\<close>.\<close>

definition category_of :: "json \<Rightarrow> failure + json" where
  "category_of x =
     (if truthy x then and_then (getitem_int x 0) (\<lambda>c. getitem_key c ''title'')
      else Inr (JStr ''N/A''))"

text \<open>Line 59: \<^verbatim>\<open>lambda geoms: geoms[0].get('date') if geoms else None\<close>.\<close>

definition date_of :: "json \<Rightarrow> failure + json" where
  "date_of geoms =
     (if truthy geoms then and_then (getitem_int geoms 0) (\<lambda>g. dict_get g ''date'' JNull)
      else Inr JNull)"

text \<open>
  Lines 60 and 61, with the index \<open>i\<close> as a parameter:
  \<^verbatim>\<open>geoms[0]['coordinates'][i] if geoms and len(geoms[0].get('coordinates', [])) > i else None\<close>.
\<close>

definition coordinate_of :: "nat \<Rightarrow> json \<Rightarrow> failure + json" where
  "coordinate_of i geoms =
     (if truthy geoms then
        and_then (getitem_int geoms 0) (\<lambda>g.
        and_then (dict_get g ''coordinates'' (JList [])) (\<lambda>c.
        and_then (py_len c) (\<lambda>n.
          if n > i then
            and_then (getitem_int geoms 0) (\<lambda>g'.
            and_then (getitem_key g' ''coordinates'') (\<lambda>c'. getitem_int c' i))
          else Inr JNull)))
      else Inr JNull)"

definition latitude_of :: "json \<Rightarrow> failure + json" where
  "latitude_of = coordinate_of 1"

definition longitude_of :: "json \<Rightarrow> failure + json" where
  "longitude_of = coordinate_of 0"

subsection \<open>Lines 64 to 66: dropna, to\_datetime, year\<close>

text \<open>
  A timestamp in UTC, by its calendar fields. \<^verbatim>\<open>.dt.year\<close> reads the year field.
\<close>

record timestamp =
  ts_year :: int
  ts_month :: nat
  ts_day :: nat
  ts_hour :: nat
  ts_minute :: nat
  ts_second :: nat

text \<open>
  A row of \<^verbatim>\<open>df\<close> once lines 55 to 61 have added their columns; \<open>'d\<close> is what the
  \<^verbatim>\<open>date\<close> column holds: the extracted value up to line 64, a timestamp from line 65 on.
  Line 66 adds \<^verbatim>\<open>year\<close>.
\<close>

record 'd located = raw_row +
  category :: json
  date :: 'd
  latitude :: json
  longitude :: json

record row = "timestamp located" +
  year :: int

text \<open>
  \<^verbatim>\<open>pd.to_datetime(df['date'])\<close> (line 65) is library code, called with the default
  \<^verbatim>\<open>errors='raise'\<close> on the whole column. What it answers is a \<open>reader\<close>: an exception, or
  a column with one cell for each cell it was given, a cell being a timestamp or NaT
  (\<open>None\<close>). pandas reads a column as a whole (it may read all cells by the format of the
  first), so the reader is a function of the column and not of its cells.
\<close>

type_synonym reader = "json list \<Rightarrow> failure + timestamp option list"

text \<open>The table after line 61, from its columns.\<close>

definition add_columns ::
  "raw_row list \<Rightarrow> json list \<Rightarrow> json list \<Rightarrow> json list \<Rightarrow> json list \<Rightarrow> json located list" where
  "add_columns raws cats dates lats lons =
     map (\<lambda>(r, c, d, la, lo).
           \<lparr>event_id = event_id r, title = title r, categories = categories r,
            geometry = geometry r, category = c, date = d, latitude = la, longitude = lo\<rparr>)
       (zip raws (zip cats (zip dates (zip lats lons))))"

text \<open>Line 64: \<^verbatim>\<open>df.dropna(subset=['latitude', 'longitude', 'date'], inplace=True)\<close>.\<close>

definition dropna :: "json located list \<Rightarrow> json located list" where
  "dropna xs = filter (\<lambda>x. \<not> isna (latitude x) \<and> \<not> isna (longitude x) \<and> \<not> isna (date x)) xs"

text \<open>
  Lines 65 and 66 on one row whose date was read: the timestamp replaces the extracted
  date, the year is read from it.
\<close>

definition finish_row :: "json located \<Rightarrow> timestamp \<Rightarrow> row" where
  "finish_row x t =
     \<lparr>event_id = event_id x, title = title x, categories = categories x,
      geometry = geometry x, category = category x, date = t,
      latitude = latitude x, longitude = longitude x, year = ts_year t\<rparr>"

text \<open>
  Lines 51 to 65: the rows that line 64 keeps, each with what \<^verbatim>\<open>pd.to_datetime\<close> made of
  its date. The columns are computed one after the other, each over all rows, so the first
  column that cannot be computed decides which exception is raised. An answer of the
  reader that has not one cell for each cell of the column is not an answer of
  \<^verbatim>\<open>pd.to_datetime\<close>.
\<close>

definition dated :: "reader \<Rightarrow> event list \<Rightarrow> failure + (json located \<times> timestamp option) list" where
  "dated to_dt evs =
     and_then (select_columns evs) (\<lambda>raws.
     and_then (series_apply category_of (map categories raws)) (\<lambda>cats.
     and_then (series_apply date_of (map geometry raws)) (\<lambda>dates.
     and_then (series_apply latitude_of (map geometry raws)) (\<lambda>lats.
     and_then (series_apply longitude_of (map geometry raws)) (\<lambda>lons.
       let kept = dropna (add_columns raws cats dates lats lons) in
       and_then (to_dt (map date kept)) (\<lambda>stamps.
         if length stamps = length kept then Inr (zip kept stamps)
         else Inl Outside_model))))))"

text \<open>
  Lines 51 to 66. Line 66 reads the year of every date. A row whose date is NaT stays in
  \<^verbatim>\<open>df\<close> with the year NaN; it is no row of the model, which has a date and a year in
  every row, so a table with such a row is not followed further.
\<close>

definition normalize_with :: "reader \<Rightarrow> event list \<Rightarrow> failure + row list" where
  "normalize_with to_dt evs =
     and_then (dated to_dt evs) (\<lambda>xs.
       if list_all (\<lambda>(x, stamp). stamp \<noteq> None) xs
       then Inr (map (\<lambda>(x, stamp). finish_row x (the stamp)) xs)
       else Inl Outside_model)"

subsection \<open>Reading the dates\<close>

text \<open>
  The date-times the upstream API sends have the form \<^verbatim>\<open>2020-05-01T00:00:00Z\<close>.
  \<open>parse_iso8601\<close> reads exactly these (a valid calendar date and time of day, a year
  pandas can hold at nanosecond resolution).
\<close>

definition digit_of :: "char \<Rightarrow> nat option" where
  "digit_of c =
     (let n = (of_char c :: nat) in if 48 \<le> n \<and> n \<le> 57 then Some (n - 48) else None)"

fun number_from :: "nat \<Rightarrow> string \<Rightarrow> nat option" where
  "number_from acc [] = Some acc"
| "number_from acc (c # cs) =
     (case digit_of c of None \<Rightarrow> None | Some d \<Rightarrow> number_from (10 * acc + d) cs)"

definition field :: "nat \<Rightarrow> nat \<Rightarrow> string \<Rightarrow> nat option" where
  "field start len s = number_from 0 (take len (drop start s))"

definition leap_year :: "nat \<Rightarrow> bool" where
  "leap_year y = (y mod 4 = 0 \<and> (y mod 100 \<noteq> 0 \<or> y mod 400 = 0))"

definition days_in_month :: "nat \<Rightarrow> nat \<Rightarrow> nat" where
  "days_in_month y m =
     (if m = 2 then (if leap_year y then 29 else 28)
      else if m = 4 \<or> m = 6 \<or> m = 9 \<or> m = 11 then 30
      else 31)"

definition parse_iso8601 :: "string \<Rightarrow> timestamp option" where
  "parse_iso8601 s =
     (if length s = 20 \<and> s ! 4 = CHR ''-'' \<and> s ! 7 = CHR ''-'' \<and> s ! 10 = CHR ''T'' \<and>
         s ! 13 = CHR '':'' \<and> s ! 16 = CHR '':'' \<and> s ! 19 = CHR ''Z''
      then
        (case (field 0 4 s, field 5 2 s, field 8 2 s, field 11 2 s, field 14 2 s, field 17 2 s) of
           (Some y, Some m, Some d, Some h, Some mi, Some se) \<Rightarrow>
             if 1678 \<le> y \<and> y \<le> 2261 \<and> 1 \<le> m \<and> m \<le> 12 \<and> 1 \<le> d \<and> d \<le> days_in_month y m \<and>
                h \<le> 23 \<and> mi \<le> 59 \<and> se \<le> 59
             then Some \<lparr>ts_year = int y, ts_month = m, ts_day = d,
                        ts_hour = h, ts_minute = mi, ts_second = se\<rparr>
             else None
         | _ \<Rightarrow> None)
      else None)"

text \<open>
  What \<^verbatim>\<open>pd.to_datetime\<close> does with one cell, as far as it is followed here: it reads a
  date-time of the upstream form; it reads the empty string and the strings \<^verbatim>\<open>NaT\<close> and
  \<^verbatim>\<open>nan\<close> as NaT, without raising; it raises ValueError on the string \<^verbatim>\<open>not-a-date\<close>.
  pandas reads many more cells (other formats, numbers) and raises on many more; for
  those the model has no answer.
\<close>

datatype reading =
    Stamp timestamp
  | NaT
  | Raises failure
  | Unknown

definition read_cell :: "json \<Rightarrow> reading" where
  "read_cell v =
     (case v of
        JStr s \<Rightarrow>
          (case parse_iso8601 s of
             Some t \<Rightarrow> Stamp t
           | None \<Rightarrow>
               if s = [] \<or> s = ''NaT'' \<or> s = ''nan'' then NaT
               else if s = ''not-a-date'' then Raises ValueError
               else Unknown)
      | _ \<Rightarrow> Unknown)"

fun first_raised :: "reading list \<Rightarrow> failure option" where
  "first_raised [] = None"
| "first_raised (Raises e # rs) = Some e"
| "first_raised (r # rs) = first_raised rs"

fun stamp_of :: "reading \<Rightarrow> timestamp option" where
  "stamp_of (Stamp t) = Some t"
| "stamp_of r = None"

text \<open>
  The reader on which the examples are computed. In its columns every date-time has the
  one upstream form, so reading the column by the format of its first cell and reading
  every cell on its own come to the same.
\<close>

definition to_datetime :: reader where
  "to_datetime col =
     (let rs = map read_cell col in
      if list_ex (\<lambda>r. r = Unknown) rs then Inl Outside_model
      else case first_raised rs of
             Some e \<Rightarrow> Inl e
           | None \<Rightarrow> Inr (map stamp_of rs))"

definition normalize :: "event list \<Rightarrow> failure + row list" where
  "normalize evs = normalize_with to_datetime evs"

text \<open>\<^verbatim>\<open>strftime('%Y-%m-%d')\<close> (lines 105 and 120).\<close>

definition digit_char :: "nat \<Rightarrow> char" where
  "digit_char n = ''0123456789'' ! (n mod 10)"

definition strftime_ymd :: "timestamp \<Rightarrow> string" where
  "strftime_ymd t =
     (let y = nat (ts_year t); m = ts_month t; d = ts_day t in
      [digit_char (y div 1000), digit_char (y div 100), digit_char (y div 10), digit_char y,
       CHR ''-'', digit_char (m div 10), digit_char m,
       CHR ''-'', digit_char (d div 10), digit_char d])"

section \<open>The selection controls and the filter (lines 75 to 93)\<close>

text \<open>\<^verbatim>\<open>Series.unique()\<close>: the distinct values, each where it first appears.\<close>

definition unique :: "'a list \<Rightarrow> 'a list" where
  "unique xs = rev (remdups (rev xs))"

text \<open>Line 75: \<^verbatim>\<open>sorted(df['year'].unique(), reverse=True)\<close>.\<close>

definition available_years :: "row list \<Rightarrow> int list" where
  "available_years df = rev (sort (unique (map year df)))"

text \<open>
  Line 82: \<^verbatim>\<open>sorted(df['category'].unique())\<close>. Python orders str values by code point,
  which is the lexicographic order of \<open>string\<close>. The title of a category is a str; the
  model does not follow \<^verbatim>\<open>sorted\<close> on other values.
\<close>

definition all_categories :: "row list \<Rightarrow> failure + json list" where
  "all_categories df =
     (let cats = unique (map category df) in
      if list_all is_str cats then Inr (map JStr (sort (map str_of cats)))
      else Inl Outside_model)"

text \<open>
  The widgets. A select box returns one of its options (the first one until the user picks
  another), or \<^verbatim>\<open>None\<close> when it has no option; a multi-select returns the options the user
  has picked, by default (line 86) all of them. What the user does is an index, or a list
  of indices.
\<close>

record user =
  year_choice :: nat
  category_choice :: "nat list option"

definition selectbox :: "'a list \<Rightarrow> nat \<Rightarrow> 'a option" where
  "selectbox options i =
     (if options = [] then None
      else if i < length options then Some (options ! i)
      else Some (options ! 0))"

definition multiselect :: "'a list \<Rightarrow> nat list option \<Rightarrow> 'a list" where
  "multiselect options choice =
     (case choice of
        None \<Rightarrow> options
      | Some picked \<Rightarrow> map (\<lambda>i. options ! i) (unique (filter (\<lambda>i. i < length options) picked)))"

text \<open>
  Lines 90 to 92: the two boolean columns, their conjunction, and the rows the mask
  selects.
\<close>

definition eq_column :: "int list \<Rightarrow> int option \<Rightarrow> bool list" where
  "eq_column col v = map (\<lambda>x. Some x = v) col"

definition isin :: "json list \<Rightarrow> json list \<Rightarrow> bool list" where
  "isin col vals = map (\<lambda>x. x \<in> set vals) col"

definition mask_and :: "bool list \<Rightarrow> bool list \<Rightarrow> bool list" where
  "mask_and m1 m2 = map2 (\<and>) m1 m2"

definition boolean_index :: "'a list \<Rightarrow> bool list \<Rightarrow> 'a list" where
  "boolean_index xs keep = map fst (filter snd (zip xs keep))"

definition filter_mask :: "row list \<Rightarrow> int option \<Rightarrow> json list \<Rightarrow> bool list" where
  "filter_mask df selected_year selected_categories =
     mask_and (eq_column (map year df) selected_year)
              (isin (map category df) selected_categories)"

definition filtered_rows :: "row list \<Rightarrow> int option \<Rightarrow> json list \<Rightarrow> row list" where
  "filtered_rows df selected_year selected_categories =
     boolean_index df (filter_mask df selected_year selected_categories)"

section \<open>The page (lines 46 to 136)\<close>

text \<open>
  What the script writes to the page. The title and the introduction (lines 18 to 26) are
  the same on every page and are left out. The texts of the four messages are constants of
  the source; a message is named here by the line that writes it: \<open>Fetch_failed\<close> (line 42,
  with the text of the exception), \<open>Loaded\<close> (line 68, with the number of rows),
  \<open>No_match\<close> (line 133), \<open>Load_failed\<close> (line 136).
\<close>

datatype message =
    Fetch_failed string
  | Loaded nat
  | No_match
  | Load_failed

record marker =
  location :: "json \<times> json"
  popup :: "json \<times> json \<times> string"
  tooltip :: json

text \<open>
  The map is given by the two columns whose means are its centre (line 112) and by its
  markers.
\<close>

datatype element =
    St_error message
  | St_success message
  | St_warning message
  | Sidebar_header
  | Selectbox "int list"
  | Multiselect "json list"
  | St_header "int option" "json list"
  | St_metric nat
  | St_dataframe "(json \<times> json \<times> string \<times> json \<times> json) list"
  | St_subheader
  | Folium_static "json list \<times> json list" "marker list"

text \<open>
  A data frame is an object: \<^verbatim>\<open>filtered_df['date_str'] = ...\<close> (line 105) changes the
  object the name refers to. The objects live in a store; a name of the script holds an
  address. A frame has the rows of the table and, once line 105 has run on it, the column
  \<^verbatim>\<open>date_str\<close>.
\<close>

record frame =
  rows :: "row list"
  date_str :: "string list option"

record session =
  store :: "nat \<Rightarrow> frame option"
  fresh :: nat
  page :: "element list"

definition new_session :: session where
  "new_session = \<lparr>store = (\<lambda>a. None), fresh = 0, page = []\<rparr>"

definition alloc :: "frame \<Rightarrow> session \<Rightarrow> nat \<times> session" where
  "alloc f s = (fresh s, s\<lparr>store := (store s)(fresh s := Some f), fresh := Suc (fresh s)\<rparr>)"

definition emit :: "element list \<Rightarrow> session \<Rightarrow> session" where
  "emit es s = s\<lparr>page := page s @ es\<rparr>"

text \<open>
  Reading through a name. The script only reads names it has bound; for any other address
  the model has no answer.
\<close>

definition deref :: "session \<Rightarrow> nat \<Rightarrow> failure + frame" where
  "deref s a = (case store s a of None \<Rightarrow> Inl Outside_model | Some f \<Rightarrow> Inr f)"

text \<open>\<^verbatim>\<open>df[mask]\<close> makes a new frame out of the selected rows.\<close>

definition getitem_mask :: "nat \<Rightarrow> bool list \<Rightarrow> session \<Rightarrow> failure + nat \<times> session" where
  "getitem_mask a keep s =
     and_then (deref s a) (\<lambda>f.
       Inr (alloc \<lparr>rows = boolean_index (rows f) keep,
                   date_str = map_option (\<lambda>c. boolean_index c keep) (date_str f)\<rparr> s))"

text \<open>\<^verbatim>\<open>.copy()\<close> makes a new frame with the same cells.\<close>

definition copy_frame :: "nat \<Rightarrow> session \<Rightarrow> failure + nat \<times> session" where
  "copy_frame a s = and_then (deref s a) (\<lambda>f. Inr (alloc f s))"

text \<open>
  Lines 90 to 93: \<^verbatim>\<open>df[(df['year'] == selected_year) & (df['category'].isin(selected_categories))].copy()\<close>.
  The result is the address \<^verbatim>\<open>filtered_df\<close> is bound to.
\<close>

definition filter_frame :: "nat \<Rightarrow> int option \<Rightarrow> json list \<Rightarrow> session \<Rightarrow> failure + nat \<times> session" where
  "filter_frame df selected_year selected_categories s =
     and_then (deref s df) (\<lambda>tbl.
     and_then (getitem_mask df (filter_mask (rows tbl) selected_year selected_categories) s) (\<lambda>(tmp, s').
       copy_frame tmp s'))"

text \<open>Line 105: \<^verbatim>\<open>filtered_df['date_str'] = filtered_df['date'].dt.strftime('%Y-%m-%d')\<close>.\<close>

definition set_date_str :: "nat \<Rightarrow> session \<Rightarrow> failure + session" where
  "set_date_str a s =
     and_then (deref s a) (\<lambda>f.
       Inr (s\<lparr>store := (store s)(a := Some (f\<lparr>date_str := Some (map (\<lambda>r. strftime_ymd (date r)) (rows f))\<rparr>))\<rparr>))"

text \<open>Line 106: the columns \<^verbatim>\<open>['title', 'category', 'date_str', 'latitude', 'longitude']\<close>.\<close>

definition table_view :: "frame \<Rightarrow> failure + (json \<times> json \<times> string \<times> json \<times> json) list" where
  "table_view f =
     (case date_str f of
        None \<Rightarrow> Inl KeyError
      | Some ds \<Rightarrow> Inr (map2 (\<lambda>r d. (title r, category r, d, latitude r, longitude r)) (rows f) ds))"

text \<open>Lines 116 to 127: one marker per row.\<close>

definition marker_of :: "row \<Rightarrow> marker" where
  "marker_of r =
     \<lparr>location = (latitude r, longitude r),
      popup = (title r, category r, strftime_ymd (date r)),
      tooltip = title r\<rparr>"

fun is_num :: "json \<Rightarrow> bool" where
  "is_num (JNum x) = True"
| "is_num v = False"

text \<open>
  Lines 112 to 130. The model follows the map for coordinates that are numbers.
\<close>

definition map_view :: "frame \<Rightarrow> failure + element" where
  "map_view f =
     (if list_all (\<lambda>r. is_num (latitude r) \<and> is_num (longitude r)) (rows f)
      then Inr (Folium_static (map latitude (rows f), map longitude (rows f)) (map marker_of (rows f)))
      else Inl Outside_model)"

text \<open>
  Lines 68 to 133: what the script does once \<^verbatim>\<open>df\<close> is built. \<open>df\<close> is the address of
  the table.
\<close>

definition show_events :: "user \<Rightarrow> nat \<Rightarrow> session \<Rightarrow> failure + session" where
  "show_events u df s0 =
     and_then (deref s0 df) (\<lambda>tbl.
     let s1 = emit [St_success (Loaded (length (rows tbl))), Sidebar_header] s0;
         years = available_years (rows tbl);
         selected_year = selectbox years (year_choice u);
         s2 = emit [Selectbox years] s1
     in
     and_then (all_categories (rows tbl)) (\<lambda>cats.
     let selected_categories = multiselect cats (category_choice u);
         s3 = emit [Multiselect cats] s2
     in
     and_then (filter_frame df selected_year selected_categories s3) (\<lambda>(filtered_df, s5).
     let s6 = emit [St_header selected_year selected_categories] s5 in
     and_then (deref s6 filtered_df) (\<lambda>f.
       if rows f \<noteq> [] then
         let s7 = emit [St_metric (length (rows f))] s6 in
         and_then (set_date_str filtered_df s7) (\<lambda>s8.
         and_then (deref s8 filtered_df) (\<lambda>f'.
         and_then (table_view f') (\<lambda>tv.
         and_then (map_view f') (\<lambda>mv.
           Inr (emit [St_dataframe tv, St_subheader, mv] s8)))))
       else Inr (emit [St_warning No_match] s6)))))"

text \<open>
  Lines 49 to 136, from the value \<^verbatim>\<open>get_eonet_data()\<close> returned (\<open>None\<close> is Python's
  \<^verbatim>\<open>None\<close>) on a page that may already hold what the fetcher wrote. \<^verbatim>\<open>if events_data:\<close>
  takes \<^verbatim>\<open>None\<close> and the empty list alike for false.
\<close>

definition script_body ::
  "reader \<Rightarrow> user \<Rightarrow> event list option \<Rightarrow> session \<Rightarrow> failure + session" where
  "script_body parse u events_data s =
     (case events_data of
        Some (e # es) \<Rightarrow>
          and_then (normalize_with parse (e # es)) (\<lambda>tbl.
            case alloc \<lparr>rows = tbl, date_str = None\<rparr> s of (df, s') \<Rightarrow> show_events u df s')
      | _ \<Rightarrow> Inr (emit [St_error Load_failed] s))"

section \<open>The event fetcher (lines 29 to 46)\<close>

text \<open>
  The request of line 35 is given by its query: \<^verbatim>\<open>days\<close> is the argument, \<^verbatim>\<open>status\<close> is
  always \<^verbatim>\<open>closed\<close>. The answer is either an exception of \<^verbatim>\<open>requests\<close> (from
  \<^verbatim>\<open>requests.get\<close>, \<^verbatim>\<open>raise_for_status\<close> or \<^verbatim>\<open>response.json\<close>), with its text, or a JSON
  object, of which the program reads the member \<^verbatim>\<open>events\<close>: \<open>Body None\<close> is an object
  without that member, \<open>Body (Some es)\<close> one whose \<^verbatim>\<open>events\<close> is the array \<open>es\<close> of
  objects. The upstream service may answer differently at different times.
\<close>

record request =
  days :: int
  status :: string

datatype response =
    Request_exception string
  | Body "event list option"

type_synonym upstream = "nat \<Rightarrow> request \<Rightarrow> response"

text \<open>
  What a call leaves behind: the elements it wrote to the page and the value it returned
  (\<open>None\<close> is Python's \<^verbatim>\<open>None\<close>).
\<close>

type_synonym fetched = "element list \<times> event list option"

text \<open>
  Lines 35 to 43, the body of \<^verbatim>\<open>get_eonet_data\<close>, run at the time \<open>now\<close> (in seconds).
  \<open>sent\<close> is the list of the requests made so far, each with its time.
\<close>

definition get_eonet_data ::
  "upstream \<Rightarrow> nat \<Rightarrow> int \<Rightarrow> (nat \<times> request) list \<Rightarrow> fetched \<times> (nat \<times> request) list" where
  "get_eonet_data up now d sent =
     (let api_url = \<lparr>days = d, status = ''closed''\<rparr>;
          sent' = sent @ [(now, api_url)]
      in case up now api_url of
           Request_exception e \<Rightarrow> (([St_error (Fetch_failed e)], None), sent')
         | Body data \<Rightarrow> (([], Some (case data of None \<Rightarrow> [] | Some es \<Rightarrow> es)), sent'))"

text \<open>
  Line 29: \<^verbatim>\<open>@st.cache_data(ttl=3600)\<close>. The decorator keeps, for each value of the
  argument, what the last run of the body left behind and when; a call finds the entry
  of its argument while the entry is younger than \<open>ttl\<close> seconds, replays the elements
  and returns the value without running the body. Otherwise it runs the body and stores
  the outcome.
\<close>

definition ttl :: nat where
  "ttl = 3600"

record entry =
  stored_at :: nat
  outcome :: fetched

record world =
  cache :: "int \<Rightarrow> entry option"
  requests :: "(nat \<times> request) list"

definition live :: "nat \<Rightarrow> entry \<Rightarrow> bool" where
  "live now e = (now < stored_at e + ttl)"

definition cached_get_eonet_data :: "upstream \<Rightarrow> nat \<Rightarrow> int \<Rightarrow> world \<Rightarrow> fetched \<times> world" where
  "cached_get_eonet_data up now d w =
     (case cache w d of
        Some e \<Rightarrow>
          if live now e then (outcome e, w)
          else (case get_eonet_data up now d (requests w) of
                  (r, sent') \<Rightarrow>
                    (r, \<lparr>cache = (cache w)(d := Some \<lparr>stored_at = now, outcome = r\<rparr>), requests = sent'\<rparr>))
      | None \<Rightarrow>
          (case get_eonet_data up now d (requests w) of
             (r, sent') \<Rightarrow>
               (r, \<lparr>cache = (cache w)(d := Some \<lparr>stored_at = now, outcome = r\<rparr>), requests = sent'\<rparr>)))"

text \<open>A sequence of calls with the same argument, at the given times.\<close>

fun calls :: "upstream \<Rightarrow> int \<Rightarrow> nat list \<Rightarrow> world \<Rightarrow> fetched list \<times> world" where
  "calls up d [] w = ([], w)"
| "calls up d (t # ts) w =
     (case cached_get_eonet_data up t d w of
        (r, w') \<Rightarrow> (case calls up d ts w' of (rs, w'') \<Rightarrow> (r # rs, w'')))"

text \<open>
  One run of the script at the time \<open>now\<close>: line 46 calls the fetcher with the default
  \<^verbatim>\<open>days=3650\<close>, then lines 49 to 136 run on what it returned.
\<close>

definition run_script ::
  "reader \<Rightarrow> upstream \<Rightarrow> nat \<Rightarrow> user \<Rightarrow> world \<Rightarrow> (failure + session) \<times> world" where
  "run_script parse up now u w =
     (case cached_get_eonet_data up now 3650 w of
        ((written, events_data), w') \<Rightarrow>
          (script_body parse u events_data (emit written new_session), w'))"

text \<open>The elements a run of the script leaves on the page, or what it raised.\<close>

definition page_of :: "(failure + session) \<times> world \<Rightarrow> failure + element list" where
  "page_of out = (case fst out of Inl e \<Rightarrow> Inl e | Inr s \<Rightarrow> Inr (page s))"

section \<open>Notions used in the statements\<close>

text \<open>
  The shape of a raw event as the upstream API documents it, as far as the program looks:
  \<^verbatim>\<open>categories\<close> is a list whose first entry, if there is one, is an object with a
  \<^verbatim>\<open>title\<close>; \<^verbatim>\<open>geometry\<close> is a list whose first entry, if there is one, is an object
  whose \<^verbatim>\<open>date\<close>, if present, is a str or null and whose \<^verbatim>\<open>coordinates\<close>, if present,
  is a list. The \<^verbatim>\<open>date\<close> and the \<^verbatim>\<open>coordinates\<close> of a sample may be missing, and the
  coordinate list may be short.
\<close>

definition categories_shaped :: "json \<Rightarrow> bool" where
  "categories_shaped v =
     (case v of
        JList [] \<Rightarrow> True
      | JList (JObj c # cs) \<Rightarrow> map_of c ''title'' \<noteq> None
      | _ \<Rightarrow> False)"

definition sample_shaped :: "json \<Rightarrow> bool" where
  "sample_shaped g =
     (case g of
        JObj kvs \<Rightarrow>
          (case map_of kvs ''date'' of None \<Rightarrow> True | Some d \<Rightarrow> is_str d \<or> d = JNull) \<and>
          (case map_of kvs ''coordinates'' of None \<Rightarrow> True | Some (JList cs) \<Rightarrow> True | Some v \<Rightarrow> False)
      | _ \<Rightarrow> False)"

definition geometry_shaped :: "json \<Rightarrow> bool" where
  "geometry_shaped v =
     (case v of JList [] \<Rightarrow> True | JList (g # gs) \<Rightarrow> sample_shaped g | _ \<Rightarrow> False)"

definition raw_event :: "event \<Rightarrow> bool" where
  "raw_event e = (categories_shaped (cell e ''categories'') \<and> geometry_shaped (cell e ''geometry''))"

text \<open>
  A geometry whose first sample has a date and two coordinates, none of them null.
\<close>

definition complete_sample :: "(string \<times> json) list \<Rightarrow> bool" where
  "complete_sample kvs =
     ((case map_of kvs ''date'' of None \<Rightarrow> False | Some d \<Rightarrow> \<not> isna d) \<and>
      (case map_of kvs ''coordinates'' of
         Some (JList (lon # lat # rest)) \<Rightarrow> \<not> isna lon \<and> \<not> isna lat
       | _ \<Rightarrow> False))"

definition complete_geometry :: "json \<Rightarrow> bool" where
  "complete_geometry v = (case v of JList (JObj kvs # gs) \<Rightarrow> complete_sample kvs | _ \<Rightarrow> False)"

text \<open>
  A first sample that lacks its date, or its coordinates, or has fewer than two of them.
\<close>

definition defective_sample :: "(string \<times> json) list \<Rightarrow> bool" where
  "defective_sample kvs =
     (case map_of kvs ''coordinates'' of
        None \<Rightarrow> True
      | Some (JList cs) \<Rightarrow> map_of kvs ''date'' = None \<or> length cs < 2
      | Some v \<Rightarrow> False)"

text \<open>The value a step returned, \<^verbatim>\<open>None\<close> where it raised.\<close>

definition returned :: "failure + json \<Rightarrow> json" where
  "returned m = (case m of Inl e \<Rightarrow> JNull | Inr v \<Rightarrow> v)"

definition returns :: "failure + 'a \<Rightarrow> bool" where
  "returns m = (case m of Inl e \<Rightarrow> False | Inr v \<Rightarrow> True)"

text \<open>The four lambdas on one row.\<close>

definition located_of :: "raw_row \<Rightarrow> json located" where
  "located_of r =
     \<lparr>event_id = event_id r, title = title r, categories = categories r, geometry = geometry r,
      category = returned (category_of (categories r)),
      date = returned (date_of (geometry r)),
      latitude = returned (latitude_of (geometry r)),
      longitude = returned (longitude_of (geometry r))\<rparr>"

definition extractable :: "raw_row \<Rightarrow> bool" where
  "extractable r =
     (returns (category_of (categories r)) \<and> returns (date_of (geometry r)) \<and>
      returns (latitude_of (geometry r)) \<and> returns (longitude_of (geometry r)))"

definition retained :: "json located \<Rightarrow> bool" where
  "retained x = (\<not> isna (latitude x) \<and> \<not> isna (longitude x) \<and> \<not> isna (date x))"

definition four_columns :: "event list \<Rightarrow> bool" where
  "four_columns evs =
     (has_column evs ''id'' \<and> has_column evs ''title'' \<and>
      has_column evs ''categories'' \<and> has_column evs ''geometry'')"

text \<open>
  The rows line 64 keeps when no lambda has raised, and the column of their dates, which is
  the column line 65 reads.
\<close>

definition kept_of :: "event list \<Rightarrow> json located list" where
  "kept_of evs = filter retained (map (\<lambda>e. located_of (select_row e)) evs)"

definition date_column :: "event list \<Rightarrow> json list" where
  "date_column evs = map date (kept_of evs)"

text \<open>A column the reader reads: it answers with a timestamp for every cell.\<close>

definition reads :: "reader \<Rightarrow> json list \<Rightarrow> bool" where
  "reads to_dt col =
     (case to_dt col of
        Inl e \<Rightarrow> False
      | Inr stamps \<Rightarrow> length stamps = length col \<and> list_all (\<lambda>stamp. stamp \<noteq> None) stamps)"

section \<open>Example inputs\<close>

text \<open>
  The two records of the specification's end-to-end example, as it writes them (neither
  has a \<^verbatim>\<open>title\<close>), and the row it expects for the first, with a title \<open>t\<close>.
\<close>

definition event_A :: event where
  "event_A =
     [(''id'', JStr ''A''),
      (''categories'', JList [JObj [(''title'', JStr ''Wildfires'')]]),
      (''geometry'', JList [JObj [(''date'', JStr ''2020-05-01T00:00:00Z''),
                                  (''coordinates'', JList [JNum 10, JNum 20])]])]"

definition event_B :: event where
  "event_B = [(''id'', JStr ''B''), (''categories'', JList []), (''geometry'', JList [])]"

definition row_A :: "string \<Rightarrow> row" where
  "row_A t =
     \<lparr>event_id = JStr ''A'', title = JStr t,
      categories = JList [JObj [(''title'', JStr ''Wildfires'')]],
      geometry = JList [JObj [(''date'', JStr ''2020-05-01T00:00:00Z''),
                              (''coordinates'', JList [JNum 10, JNum 20])]],
      category = JStr ''Wildfires'',
      date = \<lparr>ts_year = 2020, ts_month = 5, ts_day = 1, ts_hour = 0, ts_minute = 0, ts_second = 0\<rparr>,
      latitude = JNum 20, longitude = JNum 10, year = 2020\<rparr>"

text \<open>A record whose only geometry sample has coordinates and no date.\<close>

definition event_undated :: event where
  "event_undated =
     [(''id'', JStr ''C''), (''title'', JStr ''Storm''),
      (''categories'', JList [JObj [(''title'', JStr ''Severe Storms'')]]),
      (''geometry'', JList [JObj [(''coordinates'', JList [JNum 10, JNum 20])]])]"

text \<open>A record whose date is not a date.\<close>

definition event_misdated :: event where
  "event_misdated =
     [(''id'', JStr ''D''), (''title'', JStr ''Flood''),
      (''categories'', JList [JObj [(''title'', JStr ''Floods'')]]),
      (''geometry'', JList [JObj [(''date'', JStr ''not-a-date''),
                                  (''coordinates'', JList [JNum 30, JNum 40])]])]"

text \<open>A record whose date is the empty string.\<close>

definition event_blankdate :: event where
  "event_blankdate =
     [(''id'', JStr ''E''), (''title'', JStr ''Ice''),
      (''categories'', JList [JObj [(''title'', JStr ''Sea and Lake Ice'')]]),
      (''geometry'', JList [JObj [(''date'', JStr []),
                                  (''coordinates'', JList [JNum 70, JNum 80])]])]"

text \<open>The first record of the example with a title, and the second.\<close>

definition event_fire :: event where
  "event_fire = (''title'', JStr ''Fire'') # event_A"

definition event_none :: event where
  "event_none = (''title'', JStr ''None'') # event_B"

text \<open>
  Rows for the examples of the selection: a flood of 2019, and a row of 2020 whose
  category starts with a small letter.
\<close>

definition row_F :: row where
  "row_F =
     \<lparr>event_id = JStr ''F'', title = JStr ''Flood'',
      categories = JList [JObj [(''title'', JStr ''Floods'')]],
      geometry = JList [JObj [(''date'', JStr ''2019-03-02T12:00:00Z''),
                              (''coordinates'', JList [JNum 30, JNum 40])]],
      category = JStr ''Floods'',
      date = \<lparr>ts_year = 2019, ts_month = 3, ts_day = 2, ts_hour = 12, ts_minute = 0, ts_second = 0\<rparr>,
      latitude = JNum 40, longitude = JNum 30, year = 2019\<rparr>"

definition row_d :: row where
  "row_d =
     \<lparr>event_id = JStr ''G'', title = JStr ''Haze'',
      categories = JList [JObj [(''title'', JStr ''dust'')]],
      geometry = JList [JObj [(''date'', JStr ''2020-07-04T06:30:00Z''),
                              (''coordinates'', JList [JNum 50, JNum 60])]],
      category = JStr ''dust'',
      date = \<lparr>ts_year = 2020, ts_month = 7, ts_day = 4, ts_hour = 6, ts_minute = 30, ts_second = 0\<rparr>,
      latitude = JNum 60, longitude = JNum 50, year = 2020\<rparr>"

text \<open>A user who leaves the widgets as they are, and a server that has not run the script before.\<close>

definition default_user :: user where
  "default_user = \<lparr>year_choice = 0, category_choice = None\<rparr>"

definition new_world :: world where
  "new_world = \<lparr>cache = (\<lambda>d. None), requests = []\<rparr>"

text \<open>
  Three upstream services: one that answers with no events, one that cannot be reached,
  one whose only event has no date.
\<close>

definition upstream_empty :: upstream where
  "upstream_empty now req = Body (Some [])"

definition upstream_down :: upstream where
  "upstream_down now req = Request_exception ''timeout''"

definition upstream_undated :: upstream where
  "upstream_undated now req = Body (Some [event_undated])"

text \<open>A session whose only object is a table of the three rows.\<close>

definition session_three :: session where
  "session_three = snd (alloc \<lparr>rows = [row_A ''Fire'', row_F, row_d], date_str = None\<rparr> new_session)"

text \<open>
  An upstream service that has the event of the example during the first minute and no
  event afterwards.
\<close>

definition upstream_changing :: upstream where
  "upstream_changing now req = (if now < 60 then Body (Some [event_fire]) else Body (Some []))"

section \<open>Lemmas\<close>

subsection \<open>Steps that can raise\<close>

lemma and_then_Inr_iff: "and_then m f = Inr y \<longleftrightarrow> (\<exists>x. m = Inr x \<and> f x = Inr y)"
  by (cases m) (simp_all add: and_then_def)

lemma and_then_Inr: "and_then (Inr x) f = f x"
  by (simp add: and_then_def)

lemma series_apply_map:
  "series_apply f (map g xs) = Inr ys \<Longrightarrow> ys = map (\<lambda>x. returned (f (g x))) xs"
  for f :: "'a \<Rightarrow> failure + json"
proof (induction xs arbitrary: ys)
  case Nil
  then show ?case by simp
next
  case (Cons x xs)
  then show ?case
    by (auto simp: returned_def split: sum.splits)
qed

lemma series_apply_returns:
  "series_apply f xs = Inr ys \<Longrightarrow> x \<in> set xs \<Longrightarrow> returns (f x)"
proof (induction xs arbitrary: ys)
  case Nil
  then show ?case by simp
next
  case (Cons a xs)
  then show ?case
    by (auto simp: returns_def split: sum.splits)
qed

lemma add_columns_map:
  "add_columns (map select_row evs)
     (map (\<lambda>e. returned (category_of (categories (select_row e)))) evs)
     (map (\<lambda>e. returned (date_of (geometry (select_row e)))) evs)
     (map (\<lambda>e. returned (latitude_of (geometry (select_row e)))) evs)
     (map (\<lambda>e. returned (longitude_of (geometry (select_row e)))) evs)
   = map (\<lambda>e. located_of (select_row e)) evs"
  by (induction evs) (simp_all add: add_columns_def located_of_def)

lemma dropna_filter: "dropna xs = filter retained xs"
  by (simp add: dropna_def retained_def [abs_def])

lemma dated_Inr:
  assumes "dated parse evs = Inr xs"
  shows "four_columns evs"
    and "list_all (\<lambda>e. extractable (select_row e)) evs"
    and "\<exists>stamps. parse (date_column evs) = Inr stamps \<and> length stamps = length (kept_of evs) \<and>
           xs = zip (kept_of evs) stamps"
proof -
  from assms obtain raws cats dates lats lons stamps where
    sel: "select_columns evs = Inr raws"
    and c: "series_apply category_of (map categories raws) = Inr cats"
    and d: "series_apply date_of (map geometry raws) = Inr dates"
    and la: "series_apply latitude_of (map geometry raws) = Inr lats"
    and lo: "series_apply longitude_of (map geometry raws) = Inr lons"
    and st: "parse (map date (dropna (add_columns raws cats dates lats lons))) = Inr stamps"
    and len: "length stamps = length (dropna (add_columns raws cats dates lats lons))"
    and t: "xs = zip (dropna (add_columns raws cats dates lats lons)) stamps"
    unfolding dated_def and_then_Inr_iff Let_def by (auto split: if_splits)
  from sel show cols: "four_columns evs"
    by (simp add: select_columns_def four_columns_def split: if_splits)
  from sel have raws: "raws = map select_row evs"
    by (simp add: select_columns_def split: if_splits)
  have c': "cats = map (\<lambda>e. returned (category_of (categories (select_row e)))) evs"
    using series_apply_map [of category_of "\<lambda>e. categories (select_row e)" evs cats] c
    by (simp add: raws comp_def)
  have d': "dates = map (\<lambda>e. returned (date_of (geometry (select_row e)))) evs"
    using series_apply_map [of date_of "\<lambda>e. geometry (select_row e)" evs dates] d
    by (simp add: raws comp_def)
  have la': "lats = map (\<lambda>e. returned (latitude_of (geometry (select_row e)))) evs"
    using series_apply_map [of latitude_of "\<lambda>e. geometry (select_row e)" evs lats] la
    by (simp add: raws comp_def)
  have lo': "lons = map (\<lambda>e. returned (longitude_of (geometry (select_row e)))) evs"
    using series_apply_map [of longitude_of "\<lambda>e. geometry (select_row e)" evs lons] lo
    by (simp add: raws comp_def)
  have "add_columns raws cats dates lats lons = map (\<lambda>e. located_of (select_row e)) evs"
    unfolding raws c' d' la' lo' by (rule add_columns_map)
  then have loc: "dropna (add_columns raws cats dates lats lons) = kept_of evs"
    by (simp add: dropna_filter kept_of_def)
  show "list_all (\<lambda>e. extractable (select_row e)) evs"
    unfolding list_all_iff extractable_def
  proof (intro ballI conjI)
    fix e assume e: "e \<in> set evs"
    show "returns (category_of (categories (select_row e)))"
      by (rule series_apply_returns [OF c]) (simp add: raws e)
    show "returns (date_of (geometry (select_row e)))"
      by (rule series_apply_returns [OF d]) (simp add: raws e)
    show "returns (latitude_of (geometry (select_row e)))"
      by (rule series_apply_returns [OF la]) (simp add: raws e)
    show "returns (longitude_of (geometry (select_row e)))"
      by (rule series_apply_returns [OF lo]) (simp add: raws e)
  qed
  from st len t show "\<exists>stamps. parse (date_column evs) = Inr stamps \<and>
      length stamps = length (kept_of evs) \<and> xs = zip (kept_of evs) stamps"
    by (auto simp: loc date_column_def)
qed

lemma all_stamped:
  "length stamps = length xs \<Longrightarrow> list_all (\<lambda>(x, stamp). stamp \<noteq> None) (zip xs stamps) \<Longrightarrow>
   stamps = map Some (map the stamps)"
  by (induction stamps xs rule: list_induct2) auto

lemma finish_zip:
  "length stamps = length xs \<Longrightarrow>
   map (\<lambda>(x, stamp). finish_row x (the stamp)) (zip xs (map Some stamps)) = map2 finish_row xs stamps"
  by (induction stamps xs rule: list_induct2) auto

lemma stamped_column:
  "list_all (\<lambda>stamp. stamp \<noteq> None) ss \<Longrightarrow> map Some (map the ss) = ss"
  by (induction ss) auto

lemma all_stamped_Some:
  "length stamps = length xs \<Longrightarrow> list_all (\<lambda>(x, stamp). stamp \<noteq> None) (zip xs (map Some stamps))"
  by (induction stamps xs rule: list_induct2) auto

lemma normalize_with_Inr:
  assumes "normalize_with parse evs = Inr tbl"
  shows "four_columns evs"
    and "list_all (\<lambda>e. extractable (select_row e)) evs"
    and "\<exists>stamps. parse (date_column evs) = Inr (map Some stamps) \<and>
           length stamps = length (kept_of evs) \<and> tbl = map2 finish_row (kept_of evs) stamps"
proof -
  from assms obtain xs where xs: "dated parse evs = Inr xs"
    and all: "list_all (\<lambda>(x, stamp). stamp \<noteq> None) xs"
    and tbl: "tbl = map (\<lambda>(x, stamp). finish_row x (the stamp)) xs"
    unfolding normalize_with_def and_then_Inr_iff by (auto split: if_splits)
  from xs show "four_columns evs" and "list_all (\<lambda>e. extractable (select_row e)) evs"
    by (rule dated_Inr)+
  from dated_Inr(3) [OF xs] obtain stamps where st: "parse (date_column evs) = Inr stamps"
    and len: "length stamps = length (kept_of evs)" and z: "xs = zip (kept_of evs) stamps"
    by blast
  from len all have some: "stamps = map Some (map the stamps)"
    unfolding z by (rule all_stamped)
  have "tbl = map2 finish_row (kept_of evs) (map the stamps)"
    unfolding tbl z using finish_zip [of "map the stamps" "kept_of evs"] len some by simp
  with st some len show "\<exists>stamps. parse (date_column evs) = Inr (map Some stamps) \<and>
           length stamps = length (kept_of evs) \<and> tbl = map2 finish_row (kept_of evs) stamps"
    by (intro exI [of _ "map the stamps"]) simp
qed

lemma series_apply_map_total:
  "list_all (\<lambda>x. returns (f (g x))) xs \<Longrightarrow>
   series_apply f (map g xs) = Inr (map (\<lambda>x. returned (f (g x))) xs)"
  for f :: "'a \<Rightarrow> failure + json"
proof (induction xs)
  case Nil
  then show ?case by simp
next
  case (Cons x xs)
  then show ?case
    by (auto simp: returns_def returned_def split: sum.splits)
qed

lemma dated_extractable:
  assumes cols: "four_columns evs"
    and ex: "list_all (\<lambda>e. extractable (select_row e)) evs"
  shows "dated parse evs =
     and_then (parse (date_column evs))
       (\<lambda>stamps. if length stamps = length (kept_of evs) then Inr (zip (kept_of evs) stamps)
                 else Inl Outside_model)"
proof -
  have sel: "select_columns evs = Inr (map select_row evs)"
    using cols by (simp add: select_columns_def four_columns_def)
  have c: "series_apply category_of (map categories (map select_row evs))
             = Inr (map (\<lambda>e. returned (category_of (categories (select_row e)))) evs)"
    using ex series_apply_map_total [of category_of "\<lambda>e. categories (select_row e)" evs]
    by (simp add: list_all_iff extractable_def comp_def)
  have d: "series_apply date_of (map geometry (map select_row evs))
             = Inr (map (\<lambda>e. returned (date_of (geometry (select_row e)))) evs)"
    using ex series_apply_map_total [of date_of "\<lambda>e. geometry (select_row e)" evs]
    by (simp add: list_all_iff extractable_def comp_def)
  have la: "series_apply latitude_of (map geometry (map select_row evs))
             = Inr (map (\<lambda>e. returned (latitude_of (geometry (select_row e)))) evs)"
    using ex series_apply_map_total [of latitude_of "\<lambda>e. geometry (select_row e)" evs]
    by (simp add: list_all_iff extractable_def comp_def)
  have lo: "series_apply longitude_of (map geometry (map select_row evs))
             = Inr (map (\<lambda>e. returned (longitude_of (geometry (select_row e)))) evs)"
    using ex series_apply_map_total [of longitude_of "\<lambda>e. geometry (select_row e)" evs]
    by (simp add: list_all_iff extractable_def comp_def)
  show ?thesis
    unfolding dated_def sel and_then_Inr c d la lo Let_def add_columns_map dropna_filter
      date_column_def kept_of_def
    by (rule refl)
qed

lemma normalize_with_total:
  assumes cols: "four_columns evs"
    and ex: "list_all (\<lambda>e. extractable (select_row e)) evs"
    and st: "parse (date_column evs) = Inr (map Some stamps)"
    and len: "length stamps = length (kept_of evs)"
  shows "normalize_with parse evs = Inr (map2 finish_row (kept_of evs) stamps)"
proof -
  have a: "list_all (\<lambda>(x, stamp). stamp \<noteq> None) (zip (kept_of evs) (map Some stamps))"
    by (rule all_stamped_Some [OF len])
  have b: "map (\<lambda>(x, stamp). finish_row x (the stamp)) (zip (kept_of evs) (map Some stamps))
      = map2 finish_row (kept_of evs) stamps"
    by (rule finish_zip [OF len])
  have l: "length (map Some stamps) = length (kept_of evs)"
    using len by simp
  show ?thesis
    unfolding normalize_with_def dated_extractable [OF cols ex] st and_then_Inr
      if_P [OF l] if_P [OF a] b
    by (rule refl)
qed

subsection \<open>The lambdas on cells of the documented shape\<close>

lemma category_of_shaped: "categories_shaped v \<Longrightarrow> returns (category_of v)"
  by (auto simp: categories_shaped_def category_of_def returns_def and_then_def
      split: json.splits list.splits option.splits)

lemma geometry_shaped_cases:
  assumes "geometry_shaped v"
  obtains "v = JList []" | kvs gs where "v = JList (JObj kvs # gs)" "map_of kvs ''coordinates'' = None"
    | kvs gs cs where "v = JList (JObj kvs # gs)" "map_of kvs ''coordinates'' = Some (JList cs)"
  using assms
  by (auto simp: geometry_shaped_def sample_shaped_def split: json.splits list.splits option.splits)

lemma date_of_sample:
  "date_of (JList (JObj kvs # gs)) = Inr (case map_of kvs ''date'' of None \<Rightarrow> JNull | Some d \<Rightarrow> d)"
  by (simp add: date_of_def and_then_def)

lemma coordinate_of_absent:
  "map_of kvs ''coordinates'' = None \<Longrightarrow> coordinate_of i (JList (JObj kvs # gs)) = Inr JNull"
  by (simp add: coordinate_of_def and_then_def)

lemma coordinate_of_list:
  "map_of kvs ''coordinates'' = Some (JList cs) \<Longrightarrow>
   coordinate_of i (JList (JObj kvs # gs)) = Inr (if i < length cs then cs ! i else JNull)"
  by (simp add: coordinate_of_def and_then_def)

lemma coordinate_of_empty: "coordinate_of i (JList []) = Inr JNull"
  by (simp add: coordinate_of_def)

lemma date_of_empty: "date_of (JList []) = Inr JNull"
  by (simp add: date_of_def)

lemma geometry_shaped_returns:
  assumes "geometry_shaped v"
  shows "returns (date_of v) \<and> returns (latitude_of v) \<and> returns (longitude_of v)"
  using assms
  by (cases v rule: geometry_shaped_cases)
     (simp_all add: returns_def date_of_sample date_of_empty latitude_of_def longitude_of_def
        coordinate_of_absent coordinate_of_list coordinate_of_empty)

lemma raw_event_extractable: "raw_event e \<Longrightarrow> extractable (select_row e)"
  by (simp add: raw_event_def extractable_def select_row_def category_of_shaped geometry_shaped_returns)

lemma retained_iff_complete:
  assumes "geometry_shaped (cell e ''geometry'')"
  shows "retained (located_of (select_row e)) \<longleftrightarrow> complete_geometry (cell e ''geometry'')"
  using assms
proof (cases "cell e ''geometry''" rule: geometry_shaped_cases)
  case 1
  then show ?thesis
    by (simp add: retained_def located_of_def select_row_def returned_def complete_geometry_def
        date_of_empty)
next
  case (2 kvs gs)
  then show ?thesis
    by (simp add: retained_def located_of_def select_row_def returned_def complete_geometry_def
        complete_sample_def latitude_of_def coordinate_of_absent)
next
  case (3 kvs gs cs)
  then show ?thesis
    by (cases cs; cases "tl cs")
       (auto simp add: retained_def located_of_def select_row_def returned_def complete_geometry_def
        complete_sample_def latitude_of_def longitude_of_def coordinate_of_list date_of_sample
        split: option.splits)
qed

lemma truncate_finish: "raw_row.truncate (finish_row x t) = raw_row.truncate x"
  by (simp add: finish_row_def raw_row.truncate_def)

lemma truncate_located: "raw_row.truncate (located_of r) = r"
  by (simp add: located_of_def raw_row.truncate_def)

lemma truncate_table:
  "length stamps = length xs \<Longrightarrow>
   map raw_row.truncate (map2 finish_row xs stamps) = map raw_row.truncate xs"
  by (induction stamps xs rule: list_induct2) (simp_all add: truncate_finish)

lemma truncate_kept_of:
  "map raw_row.truncate (kept_of evs)
     = map select_row (filter (\<lambda>e. retained (located_of (select_row e))) evs)"
  by (simp add: kept_of_def filter_map comp_def truncate_located)

subsection \<open>Rows of the table\<close>

lemmas normalize_defs =
  normalize_def normalize_with_def select_columns_def has_column_def has_cell_def and_then_def
  select_row_def cell_def category_of_def date_of_def latitude_of_def longitude_of_def
  coordinate_of_def add_columns_def dropna_def dated_def to_datetime_def read_cell_def Let_def
  parse_iso8601_def field_def digit_of_def days_in_month_def leap_year_def finish_row_def



lemma table_row:
  assumes "normalize_with parse evs = Inr tbl" and "r \<in> set tbl"
  shows "\<exists>e\<in>set evs. \<exists>t. extractable (select_row e) \<and> retained (located_of (select_row e)) \<and>
           r = finish_row (located_of (select_row e)) t"
proof -
  note n = normalize_with_Inr [OF assms(1)]
  from n(3) obtain stamps where tbl: "tbl = map2 finish_row (kept_of evs) stamps"
    by blast
  with assms(2) obtain x t where "(x, t) \<in> set (zip (kept_of evs) stamps)" and r: "r = finish_row x t"
    by auto
  then have "x \<in> set (kept_of evs)"
    by (auto dest: set_zip_leftD)
  then obtain e where e: "e \<in> set evs" "retained (located_of (select_row e))"
    and x: "x = located_of (select_row e)"
    by (auto simp: kept_of_def)
  moreover from n(2) e(1) have "extractable (select_row e)"
    by (simp add: list_all_iff)
  ultimately show ?thesis using r by blast
qed

lemma returns_returned: "returns m \<Longrightarrow> m = Inr (returned m)"
  by (cases m) (simp_all add: returns_def returned_def)


lemmas example_defs =
  event_A_def event_B_def row_A_def event_undated_def event_misdated_def event_blankdate_def
  event_fire_def event_none_def

lemma example_table:
  "normalize_with to_datetime [event_fire, event_none] = Inr [row_A ''Fire'']"
  by (simp add: normalize_defs example_defs)

lemmas shape_defs =
  raw_event_def categories_shaped_def geometry_shaped_def sample_shaped_def cell_def
  complete_geometry_def complete_sample_def defective_sample_def

lemma example_table_undated:
  "normalize_with to_datetime [event_fire, event_none, event_undated] = Inr [row_A ''Fire'']"
  by (simp add: normalize_defs example_defs)

lemma complete_sample_retained:
  assumes g: "cell e ''geometry'' = JList (JObj kvs # gs)" and c: "complete_sample kvs"
    and d: "map_of kvs ''date'' = Some d"
  shows "retained (located_of (select_row e))" and "date (located_of (select_row e)) = d"
proof -
  from c obtain lon lat rest where co: "map_of kvs ''coordinates'' = Some (JList (lon # lat # rest))"
    and nn: "\<not> isna lon" "\<not> isna lat"
    by (auto simp: complete_sample_def split: option.splits json.splits list.splits)
  from c d have nd: "\<not> isna d"
    by (simp add: complete_sample_def)
  show "retained (located_of (select_row e))"
    using nn nd
    by (simp add: retained_def located_of_def select_row_def g returned_def date_of_sample d
        latitude_of_def longitude_of_def coordinate_of_list [OF co])
  show "date (located_of (select_row e)) = d"
    by (simp add: located_of_def select_row_def g returned_def date_of_sample d)
qed

lemma kept_of_mem:
  "e \<in> set evs \<Longrightarrow> retained (located_of (select_row e)) \<Longrightarrow> located_of (select_row e) \<in> set (kept_of evs)"
  by (simp add: kept_of_def)

lemma date_column_shaped:
  assumes "list_all raw_event evs"
  shows "date_column evs
     = map (\<lambda>e. returned (date_of (cell e ''geometry'')))
         (filter (\<lambda>e. complete_geometry (cell e ''geometry'')) evs)"
proof -
  have "filter (\<lambda>e. retained (located_of (select_row e))) evs
      = filter (\<lambda>e. complete_geometry (cell e ''geometry'')) evs"
    using assms
    by (intro filter_cong refl retained_iff_complete) (simp add: list_all_iff raw_event_def)
  then show ?thesis
    by (simp add: date_column_def kept_of_def filter_map comp_def located_of_def select_row_def)
qed

lemma defective_not_complete: "defective_sample kvs \<Longrightarrow> \<not> complete_sample kvs"
  by (auto simp: defective_sample_def complete_sample_def split: option.splits json.splits list.splits)

lemma defective_sample_absent:
  assumes "defective_sample kvs"
  shows "(map_of kvs ''date'' = None \<longrightarrow> date_of (JList (JObj kvs # gs)) = Inr JNull) \<and>
         (map_of kvs ''coordinates'' = None \<longrightarrow>
            latitude_of (JList (JObj kvs # gs)) = Inr JNull \<and>
            longitude_of (JList (JObj kvs # gs)) = Inr JNull) \<and>
         (\<forall>cs. map_of kvs ''coordinates'' = Some (JList cs) \<and> length cs < 2 \<longrightarrow>
            latitude_of (JList (JObj kvs # gs)) = Inr JNull)"
  by (auto simp: date_of_sample latitude_of_def longitude_of_def coordinate_of_absent coordinate_of_list)

subsection \<open>The selection\<close>

lemma set_unique: "set (unique xs) = set xs"
  by (simp add: unique_def)

lemma distinct_unique: "distinct (unique xs)"
  by (simp add: unique_def)

lemma boolean_index_map: "boolean_index xs (map p xs) = filter p xs"
  by (induction xs) (simp_all add: boolean_index_def)

lemma filter_mask_map:
  "filter_mask df y cats = map (\<lambda>r. Some (year r) = y \<and> category r \<in> set cats) df"
  by (induction df) (simp_all add: filter_mask_def mask_and_def eq_column_def isin_def)

lemma filtered_rows_filter:
  "filtered_rows df y cats = filter (\<lambda>r. Some (year r) = y \<and> category r \<in> set cats) df"
  by (simp add: filtered_rows_def filter_mask_map boolean_index_map)

lemma filter_frame_result:
  assumes "store s df = Some tbl"
  shows "\<exists>s'. filter_frame df y cats s = Inr (Suc (fresh s), s') \<and>
           store s' = (store s)(fresh s := Some \<lparr>rows = filtered_rows (rows tbl) y cats,
                                   date_str = map_option (\<lambda>c. boolean_index c (filter_mask (rows tbl) y cats)) (date_str tbl)\<rparr>,
                                 Suc (fresh s) := Some \<lparr>rows = filtered_rows (rows tbl) y cats,
                                   date_str = map_option (\<lambda>c. boolean_index c (filter_mask (rows tbl) y cats)) (date_str tbl)\<rparr>) \<and>
           fresh s' = Suc (Suc (fresh s)) \<and> page s' = page s"
  using assms
  by (simp add: filter_frame_def deref_def and_then_def getitem_mask_def copy_frame_def alloc_def
      filtered_rows_def)

lemmas row_defs = row_A_def row_F_def row_d_def

subsection \<open>The page\<close>

lemma show_events_store:
  assumes "show_events u df s = Inr s'" and "store s df = Some tbl" and "a < fresh s"
  shows "store s' a = store s a"
proof -
  from assms(1,2) obtain cats where cats: "all_categories (rows tbl) = Inr cats"
    by (auto simp: show_events_def deref_def and_then_Inr_iff Let_def)
  define y where "y = selectbox (available_years (rows tbl)) (year_choice u)"
  define sel where "sel = multiselect cats (category_choice u)"
  define s3 where "s3 = emit [Multiselect cats] (emit [Selectbox (available_years (rows tbl))]
      (emit [St_success (Loaded (length (rows tbl))), Sidebar_header] s))"
  have s3: "store s3 = store s" "fresh s3 = fresh s"
    by (simp_all add: s3_def emit_def)
  from filter_frame_result [of s3 df tbl y sel] assms(2) s3
  obtain s5 where ff: "filter_frame df y sel s3 = Inr (Suc (fresh s), s5)"
    and s5: "store s5 a = store s a" "store s5 (Suc (fresh s)) \<noteq> None"
    using assms(3) by auto
  from s5(2) obtain f where f: "store s5 (Suc (fresh s)) = Some f"
    by auto
  define s6 where "s6 = emit [St_header y sel] s5"
  have s6: "store s6 = store s5"
    by (simp add: s6_def emit_def)
  have run: "show_events u df s =
      (if rows f \<noteq> [] then
         and_then (set_date_str (Suc (fresh s)) (emit [St_metric (length (rows f))] s6)) (\<lambda>s8.
         and_then (deref s8 (Suc (fresh s))) (\<lambda>f'.
         and_then (table_view f') (\<lambda>tv.
         and_then (map_view f') (\<lambda>mv.
           Inr (emit [St_dataframe tv, St_subheader, mv] s8)))))
       else Inr (emit [St_warning No_match] s6))"
    using assms(2) cats ff f
    by (simp add: show_events_def deref_def and_then_def Let_def y_def sel_def s3_def s6_def emit_def)
  show ?thesis
  proof (cases "rows f = []")
    case True
    with run assms(1) have "s' = emit [St_warning No_match] s6"
      by simp
    then show ?thesis
      by (simp add: emit_def s6 s5)
  next
    case False
    with run assms(1) have "and_then (set_date_str (Suc (fresh s)) (emit [St_metric (length (rows f))] s6)) (\<lambda>s8.
         and_then (deref s8 (Suc (fresh s))) (\<lambda>f'.
         and_then (table_view f') (\<lambda>tv.
         and_then (map_view f') (\<lambda>mv.
           Inr (emit [St_dataframe tv, St_subheader, mv] s8))))) = Inr s'"
      by simp
    then obtain s8 where s8: "set_date_str (Suc (fresh s)) (emit [St_metric (length (rows f))] s6) = Inr s8"
      and s': "\<exists>tv mv. s' = emit [St_dataframe tv, St_subheader, mv] s8"
      by (auto simp: and_then_Inr_iff)
    from s8 have "store s8 a = store s6 a"
      using assms(3)
      by (auto simp: set_date_str_def and_then_Inr_iff deref_def emit_def split: option.splits)
    with s' show ?thesis
      by (auto simp: emit_def s6 s5)
  qed
qed

lemmas page_defs =
  show_events_def deref_def and_then_def emit_def alloc_def new_session_def filter_frame_def
  getitem_mask_def copy_frame_def set_date_str_def table_view_def map_view_def marker_of_def
  available_years_def all_categories_def unique_def selectbox_def multiselect_def
  filter_mask_def mask_and_def eq_column_def isin_def boolean_index_def
  strftime_ymd_def digit_char_def

lemma show_three:
  "\<exists>s'. show_events default_user 0 session_three = Inr s' \<and>
     store s' 2 = Some \<lparr>rows = [row_A ''Fire'', row_d], date_str = Some [''2020-05-01'', ''2020-07-04'']\<rparr> \<and>
     page s' =
       [St_success (Loaded 3), Sidebar_header, Selectbox [2020, 2019],
        Multiselect [JStr ''Floods'', JStr ''Wildfires'', JStr ''dust''],
        St_header (Some 2020) [JStr ''Floods'', JStr ''Wildfires'', JStr ''dust''],
        St_metric 2,
        St_dataframe [(JStr ''Fire'', JStr ''Wildfires'', ''2020-05-01'', JNum 20, JNum 10),
                      (JStr ''Haze'', JStr ''dust'', ''2020-07-04'', JNum 60, JNum 50)],
        St_subheader,
        Folium_static ([JNum 20, JNum 60], [JNum 10, JNum 50])
          [\<lparr>location = (JNum 20, JNum 10), popup = (JStr ''Fire'', JStr ''Wildfires'', ''2020-05-01''),
            tooltip = JStr ''Fire''\<rparr>,
           \<lparr>location = (JNum 60, JNum 50), popup = (JStr ''Haze'', JStr ''dust'', ''2020-07-04''),
            tooltip = JStr ''Haze''\<rparr>]]"
  by (simp add: session_three_def default_user_def page_defs row_defs Let_def)

lemma script_example:
  "\<exists>s1. script_body to_datetime default_user (Some [event_fire, event_none]) new_session = Inr s1 \<and>
     store s1 2 = Some \<lparr>rows = [row_A ''Fire''], date_str = Some [''2020-05-01'']\<rparr>"
  unfolding script_body_def list.case option.case example_table
  by (simp add: default_user_def page_defs row_defs Let_def)

subsection \<open>The messages\<close>

lemma script_body_falsy:
  "script_body parse u None s = Inr (emit [St_error Load_failed] s)"
  "script_body parse u (Some []) s = Inr (emit [St_error Load_failed] s)"
  by (simp_all add: script_body_def)

lemma show_events_empty:
  assumes "store s df = Some \<lparr>rows = [], date_str = None\<rparr>"
  shows "\<exists>s'. show_events u df s = Inr s' \<and>
           page s' = page s @ [St_success (Loaded 0), Sidebar_header, Selectbox [], Multiselect [],
                               St_header None [], St_warning No_match]"
  using assms
  by (cases "category_choice u")
     (simp_all add: page_defs Let_def)

lemma script_body_all_dropped:
  assumes "normalize_with parse (e # es) = Inr []"
  shows "\<exists>s'. script_body parse u (Some (e # es)) s = Inr s' \<and>
           page s' = page s @ [St_success (Loaded 0), Sidebar_header, Selectbox [], Multiselect [],
                               St_header None [], St_warning No_match]"
proof -
  have "script_body parse u (Some (e # es)) s =
      show_events u (fresh s) (s\<lparr>store := (store s)(fresh s := Some \<lparr>rows = [], date_str = None\<rparr>),
                                 fresh := Suc (fresh s)\<rparr>)"
    by (simp add: script_body_def assms and_then_def alloc_def)
  then show ?thesis
    using show_events_empty [of "s\<lparr>store := (store s)(fresh s := Some \<lparr>rows = [], date_str = None\<rparr>),
                                 fresh := Suc (fresh s)\<rparr>" "fresh s" u]
    by simp
qed

lemma run_script_miss:
  assumes "cache w 3650 = None"
  shows "page_of (run_script parse up now u w) =
     (case up now \<lparr>days = 3650, status = ''closed''\<rparr> of
        Request_exception x \<Rightarrow>
          page_of (script_body parse u None (emit [St_error (Fetch_failed x)] new_session), w)
      | Body data \<Rightarrow>
          page_of (script_body parse u (Some (case data of None \<Rightarrow> [] | Some es \<Rightarrow> es)) (emit [] new_session), w))"
  using assms
  by (simp add: run_script_def cached_get_eonet_data_def get_eonet_data_def page_of_def Let_def
      split: response.splits)

subsection \<open>The cache\<close>

lemma get_eonet_data_sent:
  "snd (get_eonet_data up now d sent) = sent @ [(now, \<lparr>days = d, status = ''closed''\<rparr>)]"
  by (simp add: get_eonet_data_def Let_def split: response.splits)

lemma cached_hit:
  "cache w d = Some e \<Longrightarrow> live now e \<Longrightarrow> cached_get_eonet_data up now d w = (outcome e, w)"
  by (simp add: cached_get_eonet_data_def)

lemma cached_miss:
  assumes "case cache w d of None \<Rightarrow> True | Some e \<Rightarrow> \<not> live now e"
  shows "cached_get_eonet_data up now d w =
     (fst (get_eonet_data up now d (requests w)),
      \<lparr>cache = (cache w)(d := Some \<lparr>stored_at = now, outcome = fst (get_eonet_data up now d (requests w))\<rparr>),
       requests = requests w @ [(now, \<lparr>days = d, status = ''closed''\<rparr>)]\<rparr>)"
  using assms get_eonet_data_sent [of up now d "requests w"]
  by (cases "get_eonet_data up now d (requests w)")
     (auto simp: cached_get_eonet_data_def split: option.splits)

lemma calls_hits:
  "cache w d = Some e \<Longrightarrow> list_all (\<lambda>t. live t e) ts \<Longrightarrow>
   calls up d ts w = (replicate (length ts) (outcome e), w)"
  by (induction ts) (simp_all add: cached_hit)

lemma calls_example:
  "fst (get_eonet_data upstream_changing 0 3650 (requests new_world)) = ([], Some [event_fire]) \<and>
   calls upstream_changing 3650 [0, 10, 3599, 3600] new_world
     = ([([], Some [event_fire]), ([], Some [event_fire]), ([], Some [event_fire]), ([], Some [])],
        \<lparr>cache = (cache new_world)(3650 := Some \<lparr>stored_at = 3600, outcome = ([], Some [])\<rparr>),
         requests = [(0, \<lparr>days = 3650, status = ''closed''\<rparr>), (3600, \<lparr>days = 3650, status = ''closed''\<rparr>)]\<rparr>)"
  by (simp add: cached_get_eonet_data_def get_eonet_data_def new_world_def upstream_changing_def
      live_def ttl_def Let_def)

section \<open>The claims\<close>

text \<open>
  C1. The end-to-end example of the specification. As the specification writes the two
  records, none has a \<^verbatim>\<open>title\<close>, so the frame of line 51 has no such column and line 54
  raises KeyError.
\<close>

theorem end_to_end_example_raises: "normalize [event_A, event_B] = Inl KeyError"
  by (simp add: normalize_defs example_defs)

text \<open>
  C1, amended. When the two records carry a title, as every raw event does, normalization
  yields exactly one row: the one of record A, with the category, date, latitude,
  longitude and year of the example; record B is dropped.
\<close>

theorem end_to_end_example_titled:
  "normalize [(''title'', JStr ta) # event_A, (''title'', JStr tb) # event_B] = Inr [row_A ta]"
  by (simp add: normalize_defs example_defs)

theorem end_to_end_example_titled_witness:
  "normalize [(''title'', JStr ''Fire'') # event_A, (''title'', JStr ''None'') # event_B]
     = Inr [row_A ''Fire''] \<and>
   category (row_A ''Fire'') = JStr ''Wildfires'' \<and> year (row_A ''Fire'') = 2020 \<and>
   latitude (row_A ''Fire'') = JNum 20 \<and> longitude (row_A ''Fire'') = JNum 10 \<and>
   strftime_ymd (date (row_A ''Fire'')) = ''2020-05-01''"
  using end_to_end_example_titled [of "''Fire''" "''None''"]
  by (simp add: row_A_def strftime_ymd_def digit_char_def)

text \<open>
  C4. A record whose geometry is not empty and whose first sample has no date does not
  survive: the claim that exactly the records with an empty geometry are dropped fails.
\<close>

theorem nonempty_geometry_dropped:
  "cell event_undated ''geometry'' = JList [JObj [(''coordinates'', JList [JNum 10, JNum 20])]] \<and>
   normalize [event_undated] = Inr []"
  by (simp add: normalize_defs example_defs)

text \<open>
  C4, amended. For raw events of the documented shape, when normalization returns a
  table, its rows are, in the order of the input, exactly the records whose geometry is
  not empty and whose first sample has a date and two coordinates that are not null.
\<close>

theorem survivors:
  assumes "list_all raw_event evs" and "normalize_with parse evs = Inr tbl"
  shows "map raw_row.truncate tbl
           = map select_row (filter (\<lambda>e. complete_geometry (cell e ''geometry'')) evs)"
proof -
  from normalize_with_Inr(3) [OF assms(2)] obtain stamps where
    len: "length stamps = length (kept_of evs)"
    and tbl: "tbl = map2 finish_row (kept_of evs) stamps"
    by blast
  have "filter (\<lambda>e. retained (located_of (select_row e))) evs
      = filter (\<lambda>e. complete_geometry (cell e ''geometry'')) evs"
    using assms(1)
    by (intro filter_cong refl retained_iff_complete) (simp add: list_all_iff raw_event_def)
  then show ?thesis
    unfolding tbl truncate_table [OF len] truncate_kept_of by simp
qed

theorem survivors_witness:
  "list_all raw_event [event_fire, event_none, event_undated] \<and>
   normalize_with to_datetime [event_fire, event_none, event_undated] = Inr [row_A ''Fire''] \<and>
   filter (\<lambda>e. complete_geometry (cell e ''geometry'')) [event_fire, event_none, event_undated]
     = [event_fire] \<and>
   map raw_row.truncate [row_A ''Fire''] = map select_row [event_fire]"
proof -
  have h1: "list_all raw_event [event_fire, event_none, event_undated]"
    by (simp add: shape_defs example_defs)
  have h2: "filter (\<lambda>e. complete_geometry (cell e ''geometry'')) [event_fire, event_none, event_undated]
     = [event_fire]"
    by (simp add: shape_defs example_defs)
  show ?thesis
    using h1 h2 example_table_undated survivors [OF h1 example_table_undated]
    by simp
qed

text \<open>
  C7. The category is the title of the first category entry, or \<^verbatim>\<open>N/A\<close> for an empty
  category sequence; the latitude is the element of index 1 and the longitude the element
  of index 0 of the first sample's coordinates. This holds of the three lambdas on every
  such cell, and the columns of every row of the table are what the lambdas return on
  that row's own cells.
\<close>

theorem derived_fields:
  "category_of (JList []) = Inr (JStr ''N/A'') \<and>
   (map_of c ''title'' = Some t \<longrightarrow> category_of (JList (JObj c # cs)) = Inr t) \<and>
   (map_of kvs ''coordinates'' = Some (JList (lon # lat # rest)) \<longrightarrow>
      latitude_of (JList (JObj kvs # gs)) = Inr lat \<and>
      longitude_of (JList (JObj kvs # gs)) = Inr lon) \<and>
   (normalize_with parse evs = Inr tbl \<and> r \<in> set tbl \<longrightarrow>
      category_of (categories r) = Inr (category r) \<and>
      latitude_of (geometry r) = Inr (latitude r) \<and>
      longitude_of (geometry r) = Inr (longitude r))"
proof (intro conjI impI)
  show "category_of (JList []) = Inr (JStr ''N/A'')"
    by (simp add: category_of_def)
  show "category_of (JList (JObj c # cs)) = Inr t" if "map_of c ''title'' = Some t"
    using that by (simp add: category_of_def and_then_def)
  show "latitude_of (JList (JObj kvs # gs)) = Inr lat"
    if "map_of kvs ''coordinates'' = Some (JList (lon # lat # rest))"
    using that by (simp add: latitude_of_def coordinate_of_list)
  show "longitude_of (JList (JObj kvs # gs)) = Inr lon"
    if "map_of kvs ''coordinates'' = Some (JList (lon # lat # rest))"
    using that by (simp add: longitude_of_def coordinate_of_list)
next
  assume a: "normalize_with parse evs = Inr tbl \<and> r \<in> set tbl"
  then obtain e t where ex: "extractable (select_row e)"
    and r: "r = finish_row (located_of (select_row e)) t"
    using table_row [of parse evs tbl r] by blast
  show "category_of (categories r) = Inr (category r)"
    using ex returns_returned [of "category_of (categories (select_row e))"]
    by (simp add: r finish_row_def located_of_def extractable_def)
  show "latitude_of (geometry r) = Inr (latitude r)"
    using ex returns_returned [of "latitude_of (geometry (select_row e))"]
    by (simp add: r finish_row_def located_of_def extractable_def)
  show "longitude_of (geometry r) = Inr (longitude r)"
    using ex returns_returned [of "longitude_of (geometry (select_row e))"]
    by (simp add: r finish_row_def located_of_def extractable_def)
qed

theorem derived_fields_witness:
  "map_of [(''title'', JStr ''Wildfires'')] ''title'' = Some (JStr ''Wildfires'') \<and>
   category_of (JList [JObj [(''title'', JStr ''Wildfires'')]]) = Inr (JStr ''Wildfires'') \<and>
   category_of (JList []) = Inr (JStr ''N/A'') \<and>
   map_of [(''date'', JStr ''2020-05-01T00:00:00Z''), (''coordinates'', JList [JNum 10, JNum 20])] ''coordinates''
     = Some (JList [JNum 10, JNum 20]) \<and>
   latitude_of (JList [JObj [(''date'', JStr ''2020-05-01T00:00:00Z''), (''coordinates'', JList [JNum 10, JNum 20])]])
     = Inr (JNum 20) \<and>
   longitude_of (JList [JObj [(''date'', JStr ''2020-05-01T00:00:00Z''), (''coordinates'', JList [JNum 10, JNum 20])]])
     = Inr (JNum 10) \<and>
   normalize_with to_datetime [event_fire, event_none] = Inr [row_A ''Fire''] \<and>
   row_A ''Fire'' \<in> set [row_A ''Fire''] \<and>
   category_of (categories (row_A ''Fire'')) = Inr (category (row_A ''Fire'')) \<and>
   latitude_of (geometry (row_A ''Fire'')) = Inr (latitude (row_A ''Fire'')) \<and>
   longitude_of (geometry (row_A ''Fire'')) = Inr (longitude (row_A ''Fire''))"
proof -
  have h1: "map_of [(''title'', JStr ''Wildfires'')] ''title'' = Some (JStr ''Wildfires'')"
    by simp
  have h2: "map_of [(''date'', JStr ''2020-05-01T00:00:00Z''), (''coordinates'', JList [JNum 10, JNum 20])] ''coordinates''
     = Some (JList [JNum 10, JNum 20])"
    by simp
  have h3: "row_A ''Fire'' \<in> set [row_A ''Fire'']"
    by simp
  show ?thesis
    using h1 h2 h3 example_table
      derived_fields [of "[(''title'', JStr ''Wildfires'')]" "JStr ''Wildfires''" "[]"
        "[(''date'', JStr ''2020-05-01T00:00:00Z''), (''coordinates'', JList [JNum 10, JNum 20])]"
        "JNum 10" "JNum 20" "[]" "[]" to_datetime
        "[event_fire, event_none]" "[row_A ''Fire'']" "row_A ''Fire''"]
    by simp
qed

text \<open>
  C3. A date that cannot be read is not dropped with its record. On the date
  \<^verbatim>\<open>not-a-date\<close> line 65 raises, and no table is built, although the other record of the
  input is sound. On the empty date line 65 returns, and the record is a row of the
  table, with the date NaT.
\<close>

theorem unreadable_date_raises:
  "normalize [event_fire, event_misdated] = Inl ValueError \<and>
   dated to_datetime [event_fire, event_blankdate]
     = Inr [(located_of (select_row event_fire), Some (date (row_A ''Fire''))),
            (located_of (select_row event_blankdate), None)]"
  by (simp add: normalize_defs example_defs located_of_def returned_def)

text \<open>
  C3, amended. A record whose first sample has two coordinates and a date, none of them
  null, is never dropped for its date. Its date is a cell of the column line 65 hands to
  \<^verbatim>\<open>pd.to_datetime\<close>. Whenever line 65 returns, the record is a row of the table, whatever
  was made of its date, NaT included. When the call of line 65 raises, in a frame with the
  four columns built from raw events of the documented shape, normalization fails with
  that exception for the whole input.
\<close>

theorem unreadable_date_not_dropped:
  assumes "e \<in> set evs" and "cell e ''geometry'' = JList (JObj kvs # gs)"
    and "complete_sample kvs" and "map_of kvs ''date'' = Some d"
  shows "(dated parse evs = Inr xs \<longrightarrow> (\<exists>stamp. (located_of (select_row e), stamp) \<in> set xs)) \<and>
         (normalize_with parse evs = Inr tbl \<longrightarrow> select_row e \<in> set (map raw_row.truncate tbl)) \<and>
         d \<in> set (date_column evs) \<and>
         (four_columns evs \<and> list_all raw_event evs \<and> parse (date_column evs) = Inl err \<longrightarrow>
            dated parse evs = Inl err \<and> normalize_with parse evs = Inl err)"
proof -
  note cs = complete_sample_retained [OF assms(2,3,4)]
  have mem: "located_of (select_row e) \<in> set (kept_of evs)"
    using assms(1) cs(1) by (rule kept_of_mem)
  have A: "\<exists>stamp. (located_of (select_row e), stamp) \<in> set xs" if "dated parse evs = Inr xs"
  proof -
    from dated_Inr(3) [OF that] obtain stamps where len: "length stamps = length (kept_of evs)"
      and xs: "xs = zip (kept_of evs) stamps"
      by blast
    from len [symmetric] mem obtain stamp where
      "(located_of (select_row e), stamp) \<in> set (zip (kept_of evs) stamps)"
      by (rule in_set_impl_in_set_zip1)
    then show ?thesis unfolding xs by blast
  qed
  have B: "select_row e \<in> set (map raw_row.truncate tbl)" if "normalize_with parse evs = Inr tbl"
  proof -
    from normalize_with_Inr(3) [OF that] obtain stamps where
      len: "length stamps = length (kept_of evs)"
      and tbl: "tbl = map2 finish_row (kept_of evs) stamps"
      by blast
    have "raw_row.truncate (located_of (select_row e)) \<in> set (map raw_row.truncate (kept_of evs))"
      using mem by simp
    then show ?thesis
      unfolding tbl truncate_table [OF len] truncate_located .
  qed
  have C: "d \<in> set (date_column evs)"
    using mem cs(2) by (force simp: date_column_def)
  have D: "dated parse evs = Inl err \<and> normalize_with parse evs = Inl err"
    if "four_columns evs" "list_all raw_event evs" "parse (date_column evs) = Inl err"
  proof -
    have ex: "list_all (\<lambda>e. extractable (select_row e)) evs"
      using that(2) by (simp add: list_all_iff raw_event_extractable)
    have "dated parse evs = Inl err"
      unfolding dated_extractable [OF that(1) ex] that(3) by (simp add: and_then_def)
    then show ?thesis
      by (simp add: normalize_with_def and_then_def)
  qed
  from A B C D show ?thesis by blast
qed

theorem unreadable_date_not_dropped_witness:
  "event_misdated \<in> set [event_fire, event_misdated] \<and>
   cell event_misdated ''geometry''
     = JList [JObj [(''date'', JStr ''not-a-date''), (''coordinates'', JList [JNum 30, JNum 40])]] \<and>
   complete_sample [(''date'', JStr ''not-a-date''), (''coordinates'', JList [JNum 30, JNum 40])] \<and>
   JStr ''not-a-date'' \<in> set (date_column [event_fire, event_misdated]) \<and>
   four_columns [event_fire, event_misdated] \<and> list_all raw_event [event_fire, event_misdated] \<and>
   to_datetime (date_column [event_fire, event_misdated]) = Inl ValueError \<and>
   dated to_datetime [event_fire, event_misdated] = Inl ValueError \<and>
   normalize_with to_datetime [event_fire, event_misdated] = Inl ValueError \<and>
   event_blankdate \<in> set [event_fire, event_blankdate] \<and>
   cell event_blankdate ''geometry''
     = JList [JObj [(''date'', JStr []), (''coordinates'', JList [JNum 70, JNum 80])]] \<and>
   complete_sample [(''date'', JStr []), (''coordinates'', JList [JNum 70, JNum 80])] \<and>
   dated to_datetime [event_fire, event_blankdate]
     = Inr [(located_of (select_row event_fire), Some (date (row_A ''Fire''))),
            (located_of (select_row event_blankdate), None)] \<and>
   (\<exists>stamp. (located_of (select_row event_blankdate), stamp)
      \<in> set [(located_of (select_row event_fire), Some (date (row_A ''Fire''))),
             (located_of (select_row event_blankdate), None)]) \<and>
   event_fire \<in> set [event_fire, event_none] \<and>
   normalize_with to_datetime [event_fire, event_none] = Inr [row_A ''Fire''] \<and>
   select_row event_fire \<in> set (map raw_row.truncate [row_A ''Fire''])"
proof -
  have h1: "event_misdated \<in> set [event_fire, event_misdated]"
    by simp
  have h2: "cell event_misdated ''geometry''
     = JList [JObj [(''date'', JStr ''not-a-date''), (''coordinates'', JList [JNum 30, JNum 40])]]"
    by (simp add: cell_def example_defs)
  have h3: "complete_sample [(''date'', JStr ''not-a-date''), (''coordinates'', JList [JNum 30, JNum 40])]"
    by (simp add: complete_sample_def)
  have h4: "map_of [(''date'', JStr ''not-a-date''), (''coordinates'', JList [JNum 30, JNum 40])] ''date''
     = Some (JStr ''not-a-date'')"
    by simp
  have h5: "four_columns [event_fire, event_misdated]"
    by (simp add: four_columns_def has_column_def has_cell_def example_defs)
  have h6: "list_all raw_event [event_fire, event_misdated]"
    by (simp add: shape_defs example_defs)
  have h7: "to_datetime (date_column [event_fire, event_misdated]) = Inl ValueError"
    by (simp add: date_column_def kept_of_def retained_def located_of_def returned_def
        normalize_defs example_defs)
  have b1: "event_blankdate \<in> set [event_fire, event_blankdate]"
    by simp
  have b2: "cell event_blankdate ''geometry''
     = JList [JObj [(''date'', JStr []), (''coordinates'', JList [JNum 70, JNum 80])]]"
    by (simp add: cell_def example_defs)
  have b3: "complete_sample [(''date'', JStr []), (''coordinates'', JList [JNum 70, JNum 80])]"
    by (simp add: complete_sample_def)
  have b4: "map_of [(''date'', JStr []), (''coordinates'', JList [JNum 70, JNum 80])] ''date''
     = Some (JStr [])"
    by simp
  have b5: "dated to_datetime [event_fire, event_blankdate]
     = Inr [(located_of (select_row event_fire), Some (date (row_A ''Fire''))),
            (located_of (select_row event_blankdate), None)]"
    by (simp add: normalize_defs example_defs located_of_def returned_def)
  have f1: "event_fire \<in> set [event_fire, event_none]"
    by simp
  have f2: "cell event_fire ''geometry''
     = JList [JObj [(''date'', JStr ''2020-05-01T00:00:00Z''), (''coordinates'', JList [JNum 10, JNum 20])]]"
    by (simp add: cell_def example_defs)
  have f3: "complete_sample [(''date'', JStr ''2020-05-01T00:00:00Z''), (''coordinates'', JList [JNum 10, JNum 20])]"
    by (simp add: complete_sample_def)
  have f4: "map_of [(''date'', JStr ''2020-05-01T00:00:00Z''), (''coordinates'', JList [JNum 10, JNum 20])] ''date''
     = Some (JStr ''2020-05-01T00:00:00Z'')"
    by simp
  note m = unreadable_date_not_dropped [where parse = to_datetime and err = ValueError, OF h1 h2 h3 h4]
  note b = unreadable_date_not_dropped [where parse = to_datetime, OF b1 b2 b3 b4]
  note f = unreadable_date_not_dropped [where parse = to_datetime, OF f1 f2 f3 f4]
  from m h5 h6 h7 have r1: "JStr ''not-a-date'' \<in> set (date_column [event_fire, event_misdated]) \<and>
      dated to_datetime [event_fire, event_misdated] = Inl ValueError \<and>
      normalize_with to_datetime [event_fire, event_misdated] = Inl ValueError"
    by blast
  from b b5 have r2: "\<exists>stamp. (located_of (select_row event_blankdate), stamp)
      \<in> set [(located_of (select_row event_fire), Some (date (row_A ''Fire''))),
             (located_of (select_row event_blankdate), None)]"
    by blast
  from f example_table have r3: "select_row event_fire \<in> set (map raw_row.truncate [row_A ''Fire''])"
    by blast
  from h1 h2 h3 h5 h6 h7 b1 b2 b3 b5 f1 example_table r1 r2 r3 show ?thesis
    by blast
qed

text \<open>
  C10. A first sample without a date, without coordinates, or with fewer than two
  coordinates makes no lambda raise: what is missing is extracted as \<^verbatim>\<open>None\<close>. In a frame
  with the four columns, built from raw events of the documented shape, when the dates of
  the complete records are a column that can be read, normalization returns a table, and
  no row of the table comes from such a record.
\<close>

theorem defective_sample_dropped:
  assumes "four_columns evs" and "list_all raw_event evs"
    and "reads parse (map (\<lambda>e. returned (date_of (cell e ''geometry'')))
            (filter (\<lambda>e. complete_geometry (cell e ''geometry'')) evs))"
    and "e \<in> set evs" and "cell e ''geometry'' = JList (JObj kvs # gs)" and "defective_sample kvs"
  shows "returns (date_of (cell e ''geometry'')) \<and> returns (latitude_of (cell e ''geometry'')) \<and>
         returns (longitude_of (cell e ''geometry'')) \<and>
         (map_of kvs ''date'' = None \<longrightarrow> date_of (cell e ''geometry'') = Inr JNull) \<and>
         (map_of kvs ''coordinates'' = None \<longrightarrow>
            latitude_of (cell e ''geometry'') = Inr JNull \<and>
            longitude_of (cell e ''geometry'') = Inr JNull) \<and>
         (\<forall>cs. map_of kvs ''coordinates'' = Some (JList cs) \<and> length cs < 2 \<longrightarrow>
            latitude_of (cell e ''geometry'') = Inr JNull) \<and>
         (\<exists>tbl. normalize_with parse evs = Inr tbl \<and> select_row e \<notin> set (map raw_row.truncate tbl))"
proof -
  have shaped: "geometry_shaped (cell e ''geometry'')"
    using assms(2,4) by (simp add: list_all_iff raw_event_def)
  note ret = geometry_shaped_returns [OF shaped]
  note absent = defective_sample_absent [OF assms(6), of gs, folded assms(5)]
  have ex: "list_all (\<lambda>e. extractable (select_row e)) evs"
    using assms(2) by (simp add: list_all_iff raw_event_extractable)
  from assms(3) obtain ss where ss: "parse (date_column evs) = Inr ss"
    and len: "length ss = length (date_column evs)"
    and all: "list_all (\<lambda>stamp. stamp \<noteq> None) ss"
    unfolding reads_def date_column_shaped [OF assms(2), symmetric] by (auto split: sum.splits)
  have st: "parse (date_column evs) = Inr (map Some (map the ss))"
    unfolding stamped_column [OF all] by (rule ss)
  have len': "length (map the ss) = length (kept_of evs)"
    using len by (simp add: date_column_def)
  have tbl: "normalize_with parse evs = Inr (map2 finish_row (kept_of evs) (map the ss))"
    using assms(1) ex st len' by (rule normalize_with_total)
  have "\<not> complete_geometry (cell e ''geometry'')"
    using assms(5,6) by (simp add: complete_geometry_def defective_not_complete)
  then have "\<not> retained (located_of (select_row e))"
    using shaped by (simp add: retained_iff_complete)
  then have "select_row e \<notin> set (map raw_row.truncate (map2 finish_row (kept_of evs) (map the ss)))"
    unfolding truncate_table [OF len'] truncate_kept_of by auto
  with tbl have "\<exists>tbl. normalize_with parse evs = Inr tbl \<and> select_row e \<notin> set (map raw_row.truncate tbl)"
    by blast
  with ret absent show ?thesis by blast
qed

theorem defective_sample_dropped_witness:
  "four_columns [event_fire, event_undated] \<and> list_all raw_event [event_fire, event_undated] \<and>
   reads to_datetime (map (\<lambda>e. returned (date_of (cell e ''geometry'')))
      (filter (\<lambda>e. complete_geometry (cell e ''geometry'')) [event_fire, event_undated])) \<and>
   event_undated \<in> set [event_fire, event_undated] \<and>
   cell event_undated ''geometry'' = JList [JObj [(''coordinates'', JList [JNum 10, JNum 20])]] \<and>
   defective_sample [(''coordinates'', JList [JNum 10, JNum 20])] \<and>
   date_of (cell event_undated ''geometry'') = Inr JNull \<and>
   normalize_with to_datetime [event_fire, event_undated] = Inr [row_A ''Fire''] \<and>
   select_row event_undated \<notin> set (map raw_row.truncate [row_A ''Fire''])"
proof -
  have h1: "four_columns [event_fire, event_undated]"
    by (simp add: four_columns_def has_column_def has_cell_def example_defs)
  have h2: "list_all raw_event [event_fire, event_undated]"
    by (simp add: shape_defs example_defs)
  have h3: "reads to_datetime (map (\<lambda>e. returned (date_of (cell e ''geometry'')))
      (filter (\<lambda>e. complete_geometry (cell e ''geometry'')) [event_fire, event_undated]))"
    by (simp add: reads_def shape_defs example_defs returned_def date_of_def and_then_def
        to_datetime_def read_cell_def Let_def
        parse_iso8601_def field_def digit_of_def days_in_month_def leap_year_def)
  have h4: "event_undated \<in> set [event_fire, event_undated]"
    by simp
  have h5: "cell event_undated ''geometry'' = JList [JObj [(''coordinates'', JList [JNum 10, JNum 20])]]"
    by (simp add: cell_def example_defs)
  have h6: "defective_sample [(''coordinates'', JList [JNum 10, JNum 20])]"
    by (simp add: defective_sample_def)
  have n: "normalize_with to_datetime [event_fire, event_undated] = Inr [row_A ''Fire'']"
    by (simp add: normalize_defs example_defs)
  have d: "select_row event_undated \<notin> set (map raw_row.truncate [row_A ''Fire''])"
    by (simp add: select_row_def cell_def raw_row.truncate_def example_defs)
  from defective_sample_dropped [where parse = to_datetime, OF h1 h2 h3 h4 h5 h6]
  have "date_of (cell event_undated ''geometry'') = Inr JNull"
    by simp
  with h1 h2 h3 h4 h5 h6 n d show ?thesis
    by simp
qed

text \<open>
  C5. The filtered view holds exactly the rows whose year is the selected year and whose
  category is among the selected categories, in the order of the table; with no category
  selected it is empty. The frame lines 90 to 93 bind to \<^verbatim>\<open>filtered_df\<close> has these rows.
\<close>

theorem filtered_view:
  "filtered_rows df y cats = filter (\<lambda>r. Some (year r) = y \<and> category r \<in> set cats) df \<and>
   subseq (filtered_rows df y cats) df \<and>
   filtered_rows df y [] = [] \<and>
   (store s a = Some tbl \<longrightarrow>
      (\<exists>b s' f. filter_frame a y cats s = Inr (b, s') \<and> store s' b = Some f \<and>
                 rows f = filtered_rows (rows tbl) y cats))"
proof (intro conjI impI)
  show "filtered_rows df y cats = filter (\<lambda>r. Some (year r) = y \<and> category r \<in> set cats) df"
    by (rule filtered_rows_filter)
  show "subseq (filtered_rows df y cats) df"
    by (simp add: filtered_rows_filter)
  show "filtered_rows df y [] = []"
    by (simp add: filtered_rows_filter)
next
  assume "store s a = Some tbl"
  from filter_frame_result [OF this, of y cats]
  obtain s' where "filter_frame a y cats s = Inr (Suc (fresh s), s')"
    and "store s' (Suc (fresh s)) \<noteq> None \<and> rows (the (store s' (Suc (fresh s)))) = filtered_rows (rows tbl) y cats"
    by auto
  then show "\<exists>b s' f. filter_frame a y cats s = Inr (b, s') \<and> store s' b = Some f \<and>
                 rows f = filtered_rows (rows tbl) y cats"
    by auto
qed

theorem filtered_view_witness:
  "filtered_rows [row_A ''Fire'', row_F, row_d] (Some 2020) [JStr ''Wildfires''] = [row_A ''Fire''] \<and>
   filtered_rows [row_A ''Fire'', row_F, row_d] (Some 2020) [JStr ''dust'', JStr ''Wildfires'']
     = [row_A ''Fire'', row_d] \<and>
   filtered_rows [row_A ''Fire'', row_F, row_d] (Some 2020) [] = [] \<and>
   store (snd (alloc \<lparr>rows = [row_A ''Fire'', row_F, row_d], date_str = None\<rparr> new_session)) 0
     = Some \<lparr>rows = [row_A ''Fire'', row_F, row_d], date_str = None\<rparr> \<and>
   (\<exists>b s' f. filter_frame 0 (Some 2020) [JStr ''Wildfires'']
                (snd (alloc \<lparr>rows = [row_A ''Fire'', row_F, row_d], date_str = None\<rparr> new_session)) = Inr (b, s') \<and>
              store s' b = Some f \<and> rows f = [row_A ''Fire''])"
proof -
  have h: "store (snd (alloc \<lparr>rows = [row_A ''Fire'', row_F, row_d], date_str = None\<rparr> new_session)) 0
     = Some \<lparr>rows = [row_A ''Fire'', row_F, row_d], date_str = None\<rparr>"
    by (simp add: alloc_def new_session_def)
  have e1: "filter (\<lambda>r. Some (year r) = Some 2020 \<and> category r \<in> set [JStr ''Wildfires''])
              [row_A ''Fire'', row_F, row_d] = [row_A ''Fire'']"
    by (simp add: row_defs)
  have e2: "filter (\<lambda>r. Some (year r) = Some 2020 \<and> category r \<in> set [JStr ''dust'', JStr ''Wildfires''])
              [row_A ''Fire'', row_F, row_d] = [row_A ''Fire'', row_d]"
    by (simp add: row_defs)
  note t1 = filtered_view [of "[row_A ''Fire'', row_F, row_d]" "Some 2020" "[JStr ''Wildfires'']"
      "snd (alloc \<lparr>rows = [row_A ''Fire'', row_F, row_d], date_str = None\<rparr> new_session)" 0
      "\<lparr>rows = [row_A ''Fire'', row_F, row_d], date_str = None\<rparr>"]
  note t2 = filtered_view [of "[row_A ''Fire'', row_F, row_d]" "Some 2020" "[JStr ''dust'', JStr ''Wildfires'']"]
  from t1 have p1: "filtered_rows [row_A ''Fire'', row_F, row_d] (Some 2020) [JStr ''Wildfires'']
      = filter (\<lambda>r. Some (year r) = Some 2020 \<and> category r \<in> set [JStr ''Wildfires''])
              [row_A ''Fire'', row_F, row_d]"
    by (rule conjunct1)
  from p1 e1 have a: "filtered_rows [row_A ''Fire'', row_F, row_d] (Some 2020) [JStr ''Wildfires''] = [row_A ''Fire'']"
    by (rule trans)
  from t1 have b: "filtered_rows [row_A ''Fire'', row_F, row_d] (Some 2020) [] = []"
    by blast
  from t1 h have "\<exists>b s' f. filter_frame 0 (Some 2020) [JStr ''Wildfires'']
                (snd (alloc \<lparr>rows = [row_A ''Fire'', row_F, row_d], date_str = None\<rparr> new_session)) = Inr (b, s') \<and>
              store s' b = Some f \<and>
              rows f = filtered_rows (rows \<lparr>rows = [row_A ''Fire'', row_F, row_d], date_str = None\<rparr>)
                         (Some 2020) [JStr ''Wildfires'']"
    by blast
  then have c: "\<exists>b s' f. filter_frame 0 (Some 2020) [JStr ''Wildfires'']
                (snd (alloc \<lparr>rows = [row_A ''Fire'', row_F, row_d], date_str = None\<rparr> new_session)) = Inr (b, s') \<and>
              store s' b = Some f \<and> rows f = [row_A ''Fire'']"
    unfolding frame.select_convs a .
  from t2 have p2: "filtered_rows [row_A ''Fire'', row_F, row_d] (Some 2020) [JStr ''dust'', JStr ''Wildfires'']
      = filter (\<lambda>r. Some (year r) = Some 2020 \<and> category r \<in> set [JStr ''dust'', JStr ''Wildfires''])
              [row_A ''Fire'', row_F, row_d]"
    by (rule conjunct1)
  from p2 e2 have d: "filtered_rows [row_A ''Fire'', row_F, row_d] (Some 2020) [JStr ''dust'', JStr ''Wildfires'']
     = [row_A ''Fire'', row_d]"
    by (rule trans)
  from a b c d h show ?thesis by blast
qed

text \<open>
  C9. The year options are the years of the table, each once, in descending order. When
  the categories of the table are str values, the category options are these values, each
  once, in ascending order of their code points (capital letters come before small ones).
\<close>

theorem selection_options:
  "sorted_wrt (>) (available_years df) \<and> set (available_years df) = year ` set df \<and>
   (list_all (\<lambda>r. is_str (category r)) df \<longrightarrow>
      (\<exists>cs. all_categories df = Inr (map JStr cs) \<and> sorted_wrt (<) cs \<and>
            JStr ` set cs = category ` set df))"
proof (intro conjI impI)
  have "sorted_wrt (<) (sort (unique (map year df)))"
    by (simp add: strict_sorted_iff distinct_unique)
  then show "sorted_wrt (>) (available_years df)"
    by (simp add: available_years_def sorted_wrt_rev)
  show "set (available_years df) = year ` set df"
    by (simp add: available_years_def set_unique)
next
  assume str: "list_all (\<lambda>r. is_str (category r)) df"
  let ?cats = "unique (map category df)"
  let ?cs = "sort (map str_of ?cats)"
  have all: "list_all is_str ?cats"
    using str by (auto simp: list_all_iff set_unique)
  have jstr: "JStr (str_of v) = v" if "is_str v" for v
    using that by (cases v) simp_all
  have inj: "inj_on str_of (set ?cats)"
  proof (rule inj_onI)
    fix v w assume "v \<in> set ?cats" "w \<in> set ?cats" "str_of v = str_of w"
    with all have v: "is_str v" and w: "is_str w" and eq: "str_of v = str_of w"
      by (simp_all add: list_all_iff)
    from v have "JStr (str_of v) = v" by (rule jstr)
    moreover from w have "JStr (str_of w) = w" by (rule jstr)
    ultimately show "v = w" using eq by metis
  qed
  have "all_categories df = Inr (map JStr ?cs)"
    using all by (simp add: all_categories_def Let_def)
  moreover have "sorted_wrt (<) ?cs"
    by (simp add: strict_sorted_iff distinct_map distinct_unique inj)
  moreover have "JStr ` set ?cs = category ` set df"
  proof -
    have "JStr ` set ?cs = (\<lambda>v. JStr (str_of v)) ` set ?cats"
      by (simp add: image_image)
    also have "\<dots> = (\<lambda>v. v) ` set ?cats"
    proof (rule image_cong)
      fix v assume "v \<in> set ?cats"
      with all show "JStr (str_of v) = v"
        by (simp add: list_all_iff jstr)
    qed (rule refl)
    also have "\<dots> = set ?cats"
      by simp
    finally show ?thesis by (simp add: set_unique)
  qed
  ultimately show "\<exists>cs. all_categories df = Inr (map JStr cs) \<and> sorted_wrt (<) cs \<and>
            JStr ` set cs = category ` set df"
    by blast
qed

theorem selection_options_witness:
  "list_all (\<lambda>r. is_str (category r)) [row_F, row_A ''Fire'', row_d, row_F] \<and>
   available_years [row_F, row_A ''Fire'', row_d, row_F] = [2020, 2019] \<and>
   sorted_wrt (>) (available_years [row_F, row_A ''Fire'', row_d, row_F]) \<and>
   all_categories [row_F, row_A ''Fire'', row_d, row_F]
     = Inr (map JStr [''Floods'', ''Wildfires'', ''dust'']) \<and>
   (\<exists>cs. all_categories [row_F, row_A ''Fire'', row_d, row_F] = Inr (map JStr cs) \<and>
         sorted_wrt (<) cs \<and>
         JStr ` set cs = category ` set [row_F, row_A ''Fire'', row_d, row_F])"
proof -
  have h: "list_all (\<lambda>r. is_str (category r)) [row_F, row_A ''Fire'', row_d, row_F]"
    by (simp add: row_defs)
  have y: "available_years [row_F, row_A ''Fire'', row_d, row_F] = [2020, 2019]"
    by (simp add: available_years_def unique_def row_defs)
  have c: "all_categories [row_F, row_A ''Fire'', row_d, row_F]
     = Inr (map JStr [''Floods'', ''Wildfires'', ''dust''])"
    by (simp add: all_categories_def unique_def row_defs)
  from selection_options [of "[row_F, row_A ''Fire'', row_d, row_F]"] h
  have "sorted_wrt (>) (available_years [row_F, row_A ''Fire'', row_d, row_F])"
    and "\<exists>cs. all_categories [row_F, row_A ''Fire'', row_d, row_F] = Inr (map JStr cs) \<and>
         sorted_wrt (<) cs \<and>
         JStr ` set cs = category ` set [row_F, row_A ''Fire'', row_d, row_F]"
    by blast+
  with h y c show ?thesis by blast
qed

text \<open>
  C8. Showing the events never changes the table: after lines 68 to 133 have run,
  whatever the user selected, the object \<^verbatim>\<open>df\<close> names holds the rows and columns it held
  before (line 105 adds its column to the copy that \<^verbatim>\<open>filtered_df\<close> names). After the
  whole script, \<^verbatim>\<open>df\<close> still names the table that normalization built.
\<close>

theorem base_table_unchanged:
  "(store s df = Some tbl \<and> df < fresh s \<and> show_events u df s = Inr s' \<longrightarrow> store s' df = Some tbl) \<and>
   (script_body parse u (Some (e # es)) s0 = Inr s1 \<longrightarrow>
      (\<exists>built. normalize_with parse (e # es) = Inr built \<and>
               store s1 (fresh s0) = Some \<lparr>rows = built, date_str = None\<rparr>))"
proof (intro conjI impI)
  assume "store s df = Some tbl \<and> df < fresh s \<and> show_events u df s = Inr s'"
  then show "store s' df = Some tbl"
    using show_events_store [of u df s s' tbl df] by simp
next
  assume run: "script_body parse u (Some (e # es)) s0 = Inr s1"
  then obtain built where b: "normalize_with parse (e # es) = Inr built"
    and sh: "show_events u (fresh s0)
               (s0\<lparr>store := (store s0)(fresh s0 := Some \<lparr>rows = built, date_str = None\<rparr>),
                   fresh := Suc (fresh s0)\<rparr>) = Inr s1"
    by (auto simp: script_body_def and_then_Inr_iff alloc_def)
  from show_events_store [OF sh, of "\<lparr>rows = built, date_str = None\<rparr>" "fresh s0"]
  have "store s1 (fresh s0) = Some \<lparr>rows = built, date_str = None\<rparr>"
    by simp
  with b show "\<exists>built. normalize_with parse (e # es) = Inr built \<and>
               store s1 (fresh s0) = Some \<lparr>rows = built, date_str = None\<rparr>"
    by blast
qed

theorem base_table_unchanged_witness:
  "store session_three 0 = Some \<lparr>rows = [row_A ''Fire'', row_F, row_d], date_str = None\<rparr> \<and>
   0 < fresh session_three \<and>
   (\<exists>s'. show_events default_user 0 session_three = Inr s' \<and>
      store s' 0 = Some \<lparr>rows = [row_A ''Fire'', row_F, row_d], date_str = None\<rparr> \<and>
      store s' 2 = Some \<lparr>rows = [row_A ''Fire'', row_d], date_str = Some [''2020-05-01'', ''2020-07-04'']\<rparr>) \<and>
   (\<exists>s1. script_body to_datetime default_user (Some [event_fire, event_none]) new_session = Inr s1 \<and>
      normalize_with to_datetime [event_fire, event_none] = Inr [row_A ''Fire''] \<and>
      store s1 (fresh new_session) = Some \<lparr>rows = [row_A ''Fire''], date_str = None\<rparr> \<and>
      store s1 2 = Some \<lparr>rows = [row_A ''Fire''], date_str = Some [''2020-05-01'']\<rparr>)"
proof -
  have h1: "store session_three 0 = Some \<lparr>rows = [row_A ''Fire'', row_F, row_d], date_str = None\<rparr>"
    and h2: "0 < fresh session_three"
    by (simp_all add: session_three_def alloc_def new_session_def)
  from show_three obtain s' where s': "show_events default_user 0 session_three = Inr s'"
    and d: "store s' 2 = Some \<lparr>rows = [row_A ''Fire'', row_d], date_str = Some [''2020-05-01'', ''2020-07-04'']\<rparr>"
    by blast
  from script_example obtain s1
    where s1: "script_body to_datetime default_user (Some [event_fire, event_none]) new_session = Inr s1"
    and d1: "store s1 2 = Some \<lparr>rows = [row_A ''Fire''], date_str = Some [''2020-05-01'']\<rparr>"
    by blast
  note t = base_table_unchanged [where s = session_three and df = 0 and u = default_user and s' = s'
      and tbl = "\<lparr>rows = [row_A ''Fire'', row_F, row_d], date_str = None\<rparr>"
      and parse = to_datetime and e = event_fire and es = "[event_none]"
      and ?s0.0 = new_session and ?s1.0 = s1]
  from t h1 h2 s' have a: "store s' 0 = Some \<lparr>rows = [row_A ''Fire'', row_F, row_d], date_str = None\<rparr>"
    by blast
  from t s1 obtain built where "normalize_with to_datetime [event_fire, event_none] = Inr built"
    and "store s1 (fresh new_session) = Some \<lparr>rows = built, date_str = None\<rparr>"
    by blast
  with example_table have b: "store s1 (fresh new_session) = Some \<lparr>rows = [row_A ''Fire''], date_str = None\<rparr>"
    by simp
  from h1 h2 s' a d s1 b d1 example_table show ?thesis
    by blast
qed

text \<open>
  C2. A fetch that succeeds with zero events is shown as an error, by the very element
  that closes the page after a failed fetch.
\<close>

theorem empty_result_shown_as_error:
  "page_of (run_script to_datetime upstream_empty 0 default_user new_world)
     = Inr [St_error Load_failed] \<and>
   page_of (run_script to_datetime upstream_down 0 default_user new_world)
     = Inr [St_error (Fetch_failed ''timeout''), St_error Load_failed]"
proof -
  have h0: "cache new_world 3650 = None"
    by (simp add: new_world_def)
  show ?thesis
    unfolding run_script_miss [OF h0]
    by (simp add: upstream_empty_def upstream_down_def script_body_falsy page_of_def emit_def
        new_session_def)
qed

text \<open>
  C2, amended. On a first run of the script: when the fetch succeeds and yields zero
  events (no \<^verbatim>\<open>events\<close> member, or an empty one), the page is the one error message of
  line 136; after a failed fetch the page is the fetcher's error message followed by that
  same message; when normalization drops every record, the page has no error message: it
  has the success message with the count 0, the empty controls, and the warning of line
  133.
\<close>

theorem empty_result_messages:
  assumes "cache w 3650 = None"
  shows "(up now \<lparr>days = 3650, status = ''closed''\<rparr> = Body None \<or>
          up now \<lparr>days = 3650, status = ''closed''\<rparr> = Body (Some []) \<longrightarrow>
            page_of (run_script parse up now u w) = Inr [St_error Load_failed]) \<and>
         (up now \<lparr>days = 3650, status = ''closed''\<rparr> = Request_exception x \<longrightarrow>
            page_of (run_script parse up now u w) = Inr [St_error (Fetch_failed x), St_error Load_failed]) \<and>
         (up now \<lparr>days = 3650, status = ''closed''\<rparr> = Body (Some (e # es)) \<and>
          normalize_with parse (e # es) = Inr [] \<longrightarrow>
            page_of (run_script parse up now u w) =
              Inr [St_success (Loaded 0), Sidebar_header, Selectbox [], Multiselect [],
                   St_header None [], St_warning No_match])"
proof (intro conjI impI)
  assume "up now \<lparr>days = 3650, status = ''closed''\<rparr> = Body None \<or>
          up now \<lparr>days = 3650, status = ''closed''\<rparr> = Body (Some [])"
  then show "page_of (run_script parse up now u w) = Inr [St_error Load_failed]"
    unfolding run_script_miss [OF assms]
    by (auto simp: script_body_falsy page_of_def emit_def new_session_def)
next
  assume "up now \<lparr>days = 3650, status = ''closed''\<rparr> = Request_exception x"
  then show "page_of (run_script parse up now u w) = Inr [St_error (Fetch_failed x), St_error Load_failed]"
    unfolding run_script_miss [OF assms]
    by (simp add: script_body_falsy page_of_def emit_def new_session_def)
next
  assume a: "up now \<lparr>days = 3650, status = ''closed''\<rparr> = Body (Some (e # es)) \<and>
          normalize_with parse (e # es) = Inr []"
  then obtain s' where "script_body parse u (Some (e # es)) (emit [] new_session) = Inr s'"
    and "page s' = page (emit [] new_session) @ [St_success (Loaded 0), Sidebar_header, Selectbox [],
           Multiselect [], St_header None [], St_warning No_match]"
    using script_body_all_dropped [of parse e es u "emit [] new_session"] by blast
  with a show "page_of (run_script parse up now u w) =
              Inr [St_success (Loaded 0), Sidebar_header, Selectbox [], Multiselect [],
                   St_header None [], St_warning No_match]"
    unfolding run_script_miss [OF assms]
    by (simp add: page_of_def emit_def new_session_def)
qed

theorem empty_result_messages_witness:
  "cache new_world 3650 = None \<and>
   upstream_empty 0 \<lparr>days = 3650, status = ''closed''\<rparr> = Body (Some []) \<and>
   page_of (run_script to_datetime upstream_empty 0 default_user new_world)
     = Inr [St_error Load_failed] \<and>
   upstream_down 0 \<lparr>days = 3650, status = ''closed''\<rparr> = Request_exception ''timeout'' \<and>
   page_of (run_script to_datetime upstream_down 0 default_user new_world)
     = Inr [St_error (Fetch_failed ''timeout''), St_error Load_failed] \<and>
   upstream_undated 0 \<lparr>days = 3650, status = ''closed''\<rparr> = Body (Some [event_undated]) \<and>
   normalize_with to_datetime [event_undated] = Inr [] \<and>
   page_of (run_script to_datetime upstream_undated 0 default_user new_world)
     = Inr [St_success (Loaded 0), Sidebar_header, Selectbox [], Multiselect [],
            St_header None [], St_warning No_match]"
proof -
  have h0: "cache new_world 3650 = None"
    by (simp add: new_world_def)
  have h1: "upstream_empty 0 \<lparr>days = 3650, status = ''closed''\<rparr> = Body (Some [])"
    by (simp add: upstream_empty_def)
  have h2: "upstream_down 0 \<lparr>days = 3650, status = ''closed''\<rparr> = Request_exception ''timeout''"
    by (simp add: upstream_down_def)
  have h3: "upstream_undated 0 \<lparr>days = 3650, status = ''closed''\<rparr> = Body (Some [event_undated])"
    by (simp add: upstream_undated_def)
  have h4: "normalize_with to_datetime [event_undated] = Inr []"
    by (simp add: normalize_defs example_defs)
  from empty_result_messages [OF h0, of upstream_empty 0 to_datetime default_user] h1
  have a: "page_of (run_script to_datetime upstream_empty 0 default_user new_world)
     = Inr [St_error Load_failed]"
    by blast
  from empty_result_messages [OF h0, of upstream_down 0 to_datetime default_user "''timeout''"] h2
  have b: "page_of (run_script to_datetime upstream_down 0 default_user new_world)
     = Inr [St_error (Fetch_failed ''timeout''), St_error Load_failed]"
    by blast
  from empty_result_messages [OF h0, of upstream_undated 0 to_datetime default_user _ event_undated "[]"] h3 h4
  have c: "page_of (run_script to_datetime upstream_undated 0 default_user new_world)
     = Inr [St_success (Loaded 0), Sidebar_header, Selectbox [], Multiselect [],
            St_header None [], St_warning No_match]"
    by blast
  from h0 h1 h2 h3 h4 a b c show ?thesis
    by blast
qed

text \<open>
  C6. A first call that finds no entry younger than an hour makes one request and stores
  what it got; every further call with the same argument less than 3600 seconds after it
  makes no request and returns the same value, whatever upstream would answer by then.
  The entries of other arguments are left as they are: the cache is keyed by the argument.
\<close>

theorem fetched_once_within_ttl:
  assumes "case cache w d of None \<Rightarrow> True | Some e \<Rightarrow> \<not> live t e"
    and "list_all (\<lambda>t'. t' < t + 3600) ts"
  shows "fst (calls up d (t # ts) w)
           = replicate (Suc (length ts)) (fst (get_eonet_data up t d (requests w))) \<and>
         requests (snd (calls up d (t # ts) w))
           = requests w @ [(t, \<lparr>days = d, status = ''closed''\<rparr>)] \<and>
         (\<forall>d'. d' \<noteq> d \<longrightarrow> cache (snd (calls up d (t # ts) w)) d' = cache w d')"
proof -
  define r where "r = fst (get_eonet_data up t d (requests w))"
  define w' where "w' = \<lparr>cache = (cache w)(d := Some \<lparr>stored_at = t, outcome = r\<rparr>),
       requests = requests w @ [(t, \<lparr>days = d, status = ''closed''\<rparr>)]\<rparr>"
  have first: "cached_get_eonet_data up t d w = (r, w')"
    using cached_miss [OF assms(1), of up] by (simp add: r_def w'_def)
  have entry: "cache w' d = Some \<lparr>stored_at = t, outcome = r\<rparr>"
    by (simp add: w'_def)
  have "list_all (\<lambda>t'. live t' \<lparr>stored_at = t, outcome = r\<rparr>) ts"
    using assms(2) by (simp add: live_def ttl_def)
  with entry have rest: "calls up d ts w' = (replicate (length ts) r, w')"
    using calls_hits [of w' d "\<lparr>stored_at = t, outcome = r\<rparr>" ts up] by simp
  have "calls up d (t # ts) w = (replicate (Suc (length ts)) r, w')"
    by (simp add: first rest)
  then show ?thesis
    by (simp add: r_def w'_def)
qed

theorem fetched_once_within_ttl_witness:
  "(case cache new_world 3650 of None \<Rightarrow> True | Some e \<Rightarrow> \<not> live 0 e) \<and>
   list_all (\<lambda>t'. t' < (0::nat) + 3600) [10, 3599] \<and>
   fst (calls upstream_changing 3650 [0, 10, 3599] new_world)
     = [([], Some [event_fire]), ([], Some [event_fire]), ([], Some [event_fire])] \<and>
   requests (snd (calls upstream_changing 3650 [0, 10, 3599] new_world))
     = [(0, \<lparr>days = 3650, status = ''closed''\<rparr>)] \<and>
   requests (snd (calls upstream_changing 3650 [0, 10, 3599, 3600] new_world))
     = [(0, \<lparr>days = 3650, status = ''closed''\<rparr>), (3600, \<lparr>days = 3650, status = ''closed''\<rparr>)]"
proof -
  have h1: "case cache new_world 3650 of None \<Rightarrow> True | Some e \<Rightarrow> \<not> live 0 e"
    by (simp add: new_world_def)
  have h2: "list_all (\<lambda>t'. t' < (0::nat) + 3600) [10, 3599]"
    by simp
  have v: "fst (get_eonet_data upstream_changing 0 3650 (requests new_world)) = ([], Some [event_fire])"
    using calls_example by (rule conjunct1)
  have e: "requests new_world = []"
    by (simp add: new_world_def)
  note t = fetched_once_within_ttl [OF h1 h2, of upstream_changing]
  from t have a0: "fst (calls upstream_changing 3650 [0, 10, 3599] new_world)
     = replicate (Suc (length [10, 3599::nat]))
         (fst (get_eonet_data upstream_changing 0 3650 (requests new_world)))"
    by (rule conjunct1)
  have a1: "replicate (Suc (length [10, 3599::nat]))
         (fst (get_eonet_data upstream_changing 0 3650 (requests new_world)))
     = [([], Some [event_fire]), ([], Some [event_fire]), ([], Some [event_fire])]"
    by (simp add: v)
  from a0 a1 have a: "fst (calls upstream_changing 3650 [0, 10, 3599] new_world)
     = [([], Some [event_fire]), ([], Some [event_fire]), ([], Some [event_fire])]"
    by (rule trans)
  from t have b0: "requests (snd (calls upstream_changing 3650 [0, 10, 3599] new_world))
     = requests new_world @ [(0, \<lparr>days = 3650, status = ''closed''\<rparr>)]"
    by blast
  have b1: "requests new_world @ [(0::nat, \<lparr>days = 3650, status = ''closed''\<rparr>)]
     = [(0, \<lparr>days = 3650, status = ''closed''\<rparr>)]"
    by (simp add: e)
  from b0 b1 have b: "requests (snd (calls upstream_changing 3650 [0, 10, 3599] new_world))
     = [(0, \<lparr>days = 3650, status = ''closed''\<rparr>)]"
    by (rule trans)
  from calls_example
  have c: "requests (snd (calls upstream_changing 3650 [0, 10, 3599, 3600] new_world))
     = [(0, \<lparr>days = 3650, status = ''closed''\<rparr>), (3600, \<lparr>days = 3650, status = ''closed''\<rparr>)]"
    by simp
  from h1 h2 a b c show ?thesis
    by blast
qed

end
